theory Spec2Isabelle
  imports Main "HOL-Library.Word"
begin

section \<open>Common ground: errors, byte strings, decimal printing\<close>

text \<open>
  A Go \<^verbatim>\<open>error\<close> value is modelled by its provenance.  \<open>ErrNew m\<close> is an error created
  in the modelled code itself by \<^verbatim>\<open>errors.New\<close>, \<^verbatim>\<open>errors.Errorf\<close> or
  \<^verbatim>\<open>fmt.Errorf\<close> with message \<open>m\<close>; \<open>Wrap e m\<close> and \<open>WithStack e\<close> are the
  wrappers of \<^verbatim>\<open>github.com/pkg/errors\<close>; \<open>Ext m\<close> is an error value handed back by
  a library or by a function of the repository that is not part of the modelled files
  (identified by its message); \<open>Panic m\<close> is a run-time panic (index out of range).
  A fallible function returns \<open>error + 'a\<close> with \<open>Inl\<close> for the error.
\<close>

datatype error =
    ErrNew string
  | Wrap error string
  | WithStack error
  | Ext string
  | Panic string

text \<open>Go's \<^verbatim>\<open>[]byte\<close> and \<^verbatim>\<open>string\<close> are both sequences of bytes.\<close>

type_synonym bytes = string

text \<open>A library call returns \<open>string + 'a\<close>: either the message of its error or its value.\<close>

definition ext :: "string + 'a \<Rightarrow> error + 'a" where
  "ext r = (case r of Inl m \<Rightarrow> Inl (Ext m) | Inr v \<Rightarrow> Inr v)"

text \<open>The verbs \<^verbatim>\<open>%d\<close> and \<^verbatim>\<open>%v\<close> of \<^verbatim>\<open>fmt\<close> on integers: decimal digits.\<close>

definition digit :: "nat \<Rightarrow> char" where
  "digit n = ''0123456789'' ! n"

function show_nat :: "nat \<Rightarrow> string" where
  "show_nat n = (if n < 10 then [digit n] else show_nat (n div 10) @ [digit (n mod 10)])"
  by pat_completeness auto
termination
  by (relation "measure (\<lambda>n. n)") auto

declare show_nat.simps [simp del]

definition show_int :: "int \<Rightarrow> string" where
  "show_int i = (if i < 0 then CHR ''-'' # show_nat (nat (- i)) else show_nat (nat i))"

section \<open>Package http: the outbound client\<close>

text \<open>
  \<^verbatim>\<open>context.Context\<close> as far as the client reads it: the request id that
  \<^verbatim>\<open>middleware.GetReqID\<close> finds in it (the empty string when there is none).
\<close>

record Context =
  ReqID :: string

record request =
  Method :: string
  URL :: string
  ReqBody :: bytes
  Header :: "(string \<times> string) list"

text \<open>
  A response as \<^verbatim>\<open>executeRequest\<close> sees it: the status code, and what
  \<^verbatim>\<open>io.ReadAll(resp.Body)\<close> yields (the body, or a read error).
\<close>

record response =
  StatusCode :: int
  Body :: "string + bytes"

text \<open>
  \<^verbatim>\<open>net/http\<close> is outside the repository.  \<open>Do\<close> is \<^verbatim>\<open>http.Client.Do\<close> (the
  network's answer to a request), \<open>NewRequest\<close> is \<^verbatim>\<open>http.NewRequest\<close> and
  \<^verbatim>\<open>http.NewRequestWithContext\<close> (method, url, body), which fail on a malformed
  method or url.
\<close>

record http_Client =
  Do :: "request \<Rightarrow> string + response"
  NewRequest :: "string \<Rightarrow> string \<Rightarrow> bytes \<Rightarrow> string + request"

record Client =
  base :: http_Client

definition NewClient :: "http_Client \<Rightarrow> Client" where
  "NewClient c = \<lparr>base = c\<rparr>"

definition StatusOK :: int where
  "StatusOK = 200"

definition RequestIDHeader :: string where
  "RequestIDHeader = ''X-Request-Id''"

text \<open>\<^verbatim>\<open>Header.Add\<close> appends a value under a key.\<close>

definition Header_Add :: "string \<Rightarrow> string \<Rightarrow> request \<Rightarrow> request" where
  "Header_Add k v r = r\<lparr>Header := Header r @ [(k, v)]\<rparr>"

definition addRequestIDToHeader :: "Context \<Rightarrow> request \<Rightarrow> request" where
  "addRequestIDToHeader ctx r =
     (let requestID = ReqID ctx in
      Header_Add RequestIDHeader requestID (Header_Add ''Content-Type'' ''application/json'' r))"

definition executeRequest :: "Client \<Rightarrow> request \<Rightarrow> error + bytes" where
  "executeRequest c r =
     (case Do (base c) r of
        Inl err \<Rightarrow> Inl (Ext err)
      | Inr resp \<Rightarrow>
          (case Body resp of
             Inl err \<Rightarrow> Inl (Ext err)
           | Inr body \<Rightarrow>
               if StatusCode resp \<noteq> StatusOK
               then Inl (ErrNew (''http request failed with status '' @ show_int (StatusCode resp)
                              @ '', error: '' @ body))
               else Inr body))"

definition Post :: "Client \<Rightarrow> Context \<Rightarrow> string \<Rightarrow> bytes \<Rightarrow> error + bytes" where
  "Post c ctx url req =
     (case NewRequest (base c) ''POST'' url req of
        Inl err \<Rightarrow> Inl (Ext err)
      | Inr request \<Rightarrow> executeRequest c (addRequestIDToHeader ctx request))"

definition Get :: "Client \<Rightarrow> Context \<Rightarrow> string \<Rightarrow> error + bytes" where
  "Get c ctx url =
     (case NewRequest (base c) ''GET'' url [] of
        Inl err \<Rightarrow> Inl (Ext err)
      | Inr req \<Rightarrow> executeRequest c (addRequestIDToHeader ctx req))"

text \<open>A small server used to run the client on concrete inputs: it answers every request
  with status 201 and body \<open>created\<close>, except requests to \<open>/ok\<close>, which get 200 and
  the body \<open>fine\<close>, and requests to \<open>/cut\<close> and \<open>/down\<close>, which get status 200 and
  500 with a body whose reading breaks off (\<open>unexpected EOF\<close>).\<close>

definition demo_http :: http_Client where
  "demo_http = \<lparr>
     Do = (\<lambda>r. if URL r = ''/ok'' then Inr \<lparr>StatusCode = 200, Body = Inr ''fine''\<rparr>
                else if URL r = ''/cut''
                then Inr \<lparr>StatusCode = 200, Body = Inl ''unexpected EOF''\<rparr>
                else if URL r = ''/down''
                then Inr \<lparr>StatusCode = 500, Body = Inl ''unexpected EOF''\<rparr>
                else Inr \<lparr>StatusCode = 201, Body = Inr ''created''\<rparr>),
     NewRequest = (\<lambda>m u b. Inr \<lparr>Method = m, URL = u, ReqBody = b, Header = []\<rparr>)\<rparr>"

section \<open>Hashes and identifiers\<close>

text \<open>
  \<^verbatim>\<open>merkletree.Hash\<close> is an array of 32 bytes and \<^verbatim>\<open>core.ID\<close> an array of 31
  bytes; \<^verbatim>\<open>BigInt()\<close> reads the bytes as a number.  A value of either type is the word
  of that many bits, \<^verbatim>\<open>Equals\<close> is equality of words, and \<^verbatim>\<open>BigInt()\<close> is \<open>uint\<close>.
  Pointers to them are taken to be non-nil.
\<close>

type_synonym Hash = "256 word"

type_synonym ID = "248 word"

definition Hash_BigInt :: "Hash \<Rightarrow> int" where
  "Hash_BigInt h = uint h"

definition ID_BigInt :: "ID \<Rightarrow> int" where
  "ID_BigInt i = uint i"

definition Hash_Equals :: "Hash \<Rightarrow> Hash \<Rightarrow> bool" where
  "Hash_Equals h h2 = (h = h2)"

section \<open>Package blockchain: the publisher\<close>

type_synonym Address = bytes

text \<open>
  The type \<^verbatim>\<open>models.ZKProof\<close> is declared outside the modelled files; the publisher
  only hands it to \<^verbatim>\<open>ProofToBigInts\<close>.  It is kept as the three groups of decimal
  strings of a Groth16 proof.
\<close>

record ZKProof =
  pi_a :: "string list"
  pi_b :: "string list list"
  pi_c :: "string list"

record TransitionInfo =
  Identifier :: ID
  LatestState :: Hash
  NewState :: Hash
  IsOldStateGenesis :: bool
  Proof :: ZKProof

text \<open>The Go values handed to \<^verbatim>\<open>abi.Pack\<close>: big integers, booleans, fixed arrays.\<close>

datatype abi_arg =
    BigIntArg int
  | BoolArg bool
  | ArrayArg "abi_arg list"

record CallMsg =
  msg_From :: Address
  msg_To :: Address
  msg_Gas :: nat
  msg_Value :: int
  msg_Data :: bytes

record DynamicFeeTx =
  To :: Address
  Nonce :: nat
  Gas :: nat
  Value :: int
  Data :: bytes
  GasTipCap :: int
  GasFeeCap :: int

record Transaction =
  inner :: DynamicFeeTx
  signature :: bytes

record Header =
  Number :: int
  GasLimit :: nat
  GasUsed :: nat
  BaseFee :: int

record Receipt =
  Status :: nat
  TxHash :: bytes

text \<open>
  The node behind \<^verbatim>\<open>ethclient.Client\<close>: what each remote call answers.  Every call
  the publisher makes is appended to a trace of type \<open>rpc list\<close>, which is threaded
  through the functions; the trace is the chain interaction of a run.  Signing a
  transaction with the operator key is local, and is recorded in the trace as well
  (\<open>LocalSignTx\<close>).  The \<^verbatim>\<open>ctx\<close> argument is only passed on to these calls and is
  left out.
\<close>

datatype rpc =
    RpcPendingNonceAt Address
  | RpcEstimateGas CallMsg
  | RpcHeaderByNumber
  | RpcSuggestGasTipCap
  | RpcChainID
  | RpcSendTransaction Transaction
  | RpcTransactionReceipt bytes
  | LocalSignTx DynamicFeeTx

record ethclient =
  PendingNonceAt :: "Address \<Rightarrow> string + nat"
  EstimateGas :: "CallMsg \<Rightarrow> string + nat"
  HeaderByNumber :: "string + Header"
  SuggestGasTipCap :: "string + int"
  ChainID :: "string + int"
  SendTransaction :: "Transaction \<Rightarrow> string option"
  TransactionReceipt :: "bytes \<Rightarrow> string + Receipt"

record PrivateKey =
  D :: bytes
  PublicKey :: bytes

datatype crypto_PublicKey = ECDSA_PublicKey bytes | Other_PublicKey

text \<open>\<^verbatim>\<open>ecdsa.PrivateKey.Public\<close> returns the embedded ECDSA public key.\<close>

definition Public :: "PrivateKey \<Rightarrow> crypto_PublicKey" where
  "Public priv = ECDSA_PublicKey (PublicKey priv)"

text \<open>
  The functions of go-ethereum and of the repository's packages \<^verbatim>\<open>models\<close> and
  \<^verbatim>\<open>contracts\<close> that the publisher calls, none of them among the modelled files.
  \<open>Pack\<close> is \<^verbatim>\<open>abi.ABI.Pack\<close> on the ABI that \<open>GetAbi\<close> returns; \<open>RoundFee\<close> is
  the floating-point step \<^verbatim>\<open>math.Round(float64(x) * 1.25)\<close> of the fee computation.
\<close>

record eth_lib =
  ProofToBigInts :: "ZKProof \<Rightarrow> string + (int list \<times> int list list \<times> int list)"
  GetAbi :: "string + string"
  Pack :: "string \<Rightarrow> string \<Rightarrow> abi_arg list \<Rightarrow> string + bytes"
  PubkeyToAddress :: "bytes \<Rightarrow> Address"
  CalcBaseFee :: "Header \<Rightarrow> int"
  RoundFee :: "int \<Rightarrow> int"
  SignTx :: "DynamicFeeTx \<Rightarrow> int \<Rightarrow> PrivateKey \<Rightarrow> string + Transaction"
  TxHashHex :: "Transaction \<Rightarrow> string"
  HexToHash :: "string \<Rightarrow> bytes"

text \<open>The mutex \<^verbatim>\<open>rw\<close> serialises calls; a single call is modelled, so it is left out.\<close>

record PublisherServer =
  client :: ethclient
  contractAddress :: Address
  privateKey :: PrivateKey

text \<open>Sequencing of fallible steps, and indexing that panics out of range as Go's does.\<close>

definition bnd :: "error + 'a \<Rightarrow> ('a \<Rightarrow> error + 'b) \<Rightarrow> error + 'b" where
  "bnd r f = (case r of Inl e \<Rightarrow> Inl e | Inr v \<Rightarrow> f v)"

definition at :: "'a list \<Rightarrow> nat \<Rightarrow> error + 'a" where
  "at xs i = (if i < length xs then Inr (xs ! i) else Inl (Panic ''index out of range''))"

definition getStatePayload :: "eth_lib \<Rightarrow> TransitionInfo \<Rightarrow> error + bytes" where
  "getStatePayload L ti =
     (case ProofToBigInts L (Proof ti) of
        Inl err \<Rightarrow> Inl (Ext err)
      | Inr (a, b, c) \<Rightarrow>
          bnd (at a 0) (\<lambda>a0. bnd (at a 1) (\<lambda>a1.
          bnd (at b 0) (\<lambda>b0. bnd (at b0 1) (\<lambda>b01. bnd (at b0 0) (\<lambda>b00.
          bnd (at b 1) (\<lambda>b1. bnd (at b1 1) (\<lambda>b11. bnd (at b1 0) (\<lambda>b10.
          bnd (at c 0) (\<lambda>c0. bnd (at c 1) (\<lambda>c1.
            let proofA = ArrayArg [BigIntArg a0, BigIntArg a1];
                proofB = ArrayArg [ArrayArg [BigIntArg b01, BigIntArg b00],
                                   ArrayArg [BigIntArg b11, BigIntArg b10]];
                proofC = ArrayArg [BigIntArg c0, BigIntArg c1]
            in (case GetAbi L of
                  Inl err \<Rightarrow> Inl (WithStack (Ext err))
                | Inr ab \<Rightarrow>
                    (case Pack L ab ''transitState''
                            [BigIntArg (ID_BigInt (Identifier ti)),
                             BigIntArg (Hash_BigInt (LatestState ti)),
                             BigIntArg (Hash_BigInt (NewState ti)),
                             BoolArg (IsOldStateGenesis ti),
                             proofA, proofB, proofC] of
                       Inl err \<Rightarrow> Inl (WithStack (Ext err))
                     | Inr payload \<Rightarrow> Inr payload)))))))))))))"

definition sendTransaction ::
  "eth_lib \<Rightarrow> PublisherServer \<Rightarrow> rpc list \<Rightarrow> Address \<Rightarrow> Address \<Rightarrow> bytes
     \<Rightarrow> (error + Transaction) \<times> rpc list" where
  "sendTransaction L ps tr from to payload =
     (let tr1 = tr @ [RpcPendingNonceAt from] in
      case PendingNonceAt (client ps) from of
        Inl err \<Rightarrow> (Inl (Wrap (Ext err) ''failed to get nonce''), tr1)
      | Inr nonce \<Rightarrow>
     (let msg = \<lparr>msg_From = from, msg_To = to, msg_Gas = 0, msg_Value = 0, msg_Data = payload\<rparr>;
          tr2 = tr1 @ [RpcEstimateGas msg] in
      case EstimateGas (client ps) msg of
        Inl err \<Rightarrow> (Inl (Wrap (Ext err) ''failed to estimate gas''), tr2)
      | Inr gasLimit \<Rightarrow>
     (let tr3 = tr2 @ [RpcHeaderByNumber] in
      case HeaderByNumber (client ps) of
        Inl err \<Rightarrow> (Inl (Ext err), tr3)
      | Inr latestBlockHeader \<Rightarrow>
     (let baseFee = RoundFee L (CalcBaseFee L latestBlockHeader);
          tr4 = tr3 @ [RpcSuggestGasTipCap] in
      case SuggestGasTipCap (client ps) of
        Inl err \<Rightarrow> (Inl (Wrap (Ext err) ''failed get suggest gas tip''), tr4)
      | Inr gasTip \<Rightarrow>
     (let maxGasPricePerFee = baseFee + gasTip;
          baseTx = \<lparr>To = to, Nonce = nonce, Gas = gasLimit, Value = 0, Data = payload,
                    GasTipCap = gasTip, GasFeeCap = maxGasPricePerFee\<rparr>;
          tr5 = tr4 @ [RpcChainID] in
      case ChainID (client ps) of
        Inl err \<Rightarrow> (Inl (Ext err), tr5)
      | Inr cid \<Rightarrow>
     (let tr6 = tr5 @ [LocalSignTx baseTx] in
      case SignTx L baseTx cid (privateKey ps) of
        Inl err \<Rightarrow> (Inl (Ext err), tr6)
      | Inr signedTx \<Rightarrow>
     (let tr7 = tr6 @ [RpcSendTransaction signedTx] in
      case SendTransaction (client ps) signedTx of
        Some err \<Rightarrow> (Inl (Ext err), tr7)
      | None \<Rightarrow> (Inr signedTx, tr7))))))))"

definition UpdateState ::
  "eth_lib \<Rightarrow> PublisherServer \<Rightarrow> rpc list \<Rightarrow> TransitionInfo \<Rightarrow> (error + string) \<times> rpc list" where
  "UpdateState L ps tr trInfo =
     (if Hash_Equals (NewState trInfo) (LatestState trInfo)
      then (Inl (ErrNew ''state hasn't been changed''), tr)
      else
        (case Public (privateKey ps) of
           Other_PublicKey \<Rightarrow> (Inl (ErrNew ''error casting public key to ECDSA''), tr)
         | ECDSA_PublicKey publicKeyECDSA \<Rightarrow>
             (let fromAddress = PubkeyToAddress L publicKeyECDSA in
              case getStatePayload L trInfo of
                Inl err \<Rightarrow> (Inl err, tr)
              | Inr payload \<Rightarrow>
                  (case sendTransaction L ps tr fromAddress (contractAddress ps) payload of
                     (Inl err, tr') \<Rightarrow> (Inl err, tr')
                   | (Inr tx, tr') \<Rightarrow> (Inr (TxHashHex L tx), tr')))))"

text \<open>
  \<^verbatim>\<open>WaitTransaction\<close> as written: it makes the channel \<^verbatim>\<open>done\<close>, asks once for the
  receipt, and closes the channel in the error branch only.  The source has no
  \<^verbatim>\<open>return\<close> statement and does not use \<^verbatim>\<open>receipt\<close>; the model returns whether
  \<^verbatim>\<open>done\<close> is closed when the body ends, and the trace.
\<close>

definition WaitTransaction ::
  "eth_lib \<Rightarrow> PublisherServer \<Rightarrow> rpc list \<Rightarrow> string \<Rightarrow> bool \<times> rpc list" where
  "WaitTransaction L ps tr txHash =
     (let done_closed = False;
          h = HexToHash L txHash;
          tr1 = tr @ [RpcTransactionReceipt h] in
      case TransactionReceipt (client ps) h of
        Inl err \<Rightarrow> (True, tr1)
      | Inr receipt \<Rightarrow> (done_closed, tr1))"

text \<open>
  A node and a library to run the publisher on concrete inputs.  The demo packer prints
  the method name and the integers of the arguments in the order of the static ABI
  layout (arrays flattened, a boolean as 0 or 1); the demo proof parser returns fixed
  numbers.
\<close>

fun flat :: "abi_arg \<Rightarrow> int list" where
  "flat (BigIntArg i) = [i]"
| "flat (BoolArg b) = [if b then 1 else 0]"
| "flat (ArrayArg xs) = concat (map flat xs)"

fun commas :: "string list \<Rightarrow> string" where
  "commas [] = []"
| "commas [x] = x"
| "commas (x # y # ys) = x @ '','' @ commas (y # ys)"

definition demo_Pack :: "string \<Rightarrow> string \<Rightarrow> abi_arg list \<Rightarrow> string + bytes" where
  "demo_Pack ab m args =
     Inr (m @ ''('' @ commas (map show_int (concat (map flat args))) @ '')'')"

definition demo_node :: ethclient where
  "demo_node = \<lparr>
     PendingNonceAt = (\<lambda>a. Inr 4),
     EstimateGas = (\<lambda>m. Inr 21000),
     HeaderByNumber = Inr \<lparr>Number = 10, GasLimit = 30000000, GasUsed = 15000000, BaseFee = 100\<rparr>,
     SuggestGasTipCap = Inr 2,
     ChainID = Inr 80001,
     SendTransaction = (\<lambda>t. None),
     TransactionReceipt = (\<lambda>h. if h = ''0xdead'' then Inl ''not found''
                                 else Inr \<lparr>Status = 1, TxHash = h\<rparr>)\<rparr>"

definition demo_eth :: eth_lib where
  "demo_eth = \<lparr>
     ProofToBigInts = (\<lambda>p. Inr ([11, 12, 1], [[21, 22], [23, 24], [1, 0]], [31, 32, 1])),
     GetAbi = Inr ''abi'',
     Pack = demo_Pack,
     PubkeyToAddress = (\<lambda>k. ''0xfrom''),
     CalcBaseFee = BaseFee,
     RoundFee = (\<lambda>x. (x * 5 + 2) div 4),
     SignTx = (\<lambda>t cid k. Inr \<lparr>inner = t, signature = ''sig''\<rparr>),
     TxHashHex = (\<lambda>t. ''0xtx''),
     HexToHash = (\<lambda>s. s)\<rparr>"

definition demo_publisher :: PublisherServer where
  "demo_publisher = \<lparr>client = demo_node, contractAddress = ''0xstate'',
     privateKey = \<lparr>D = ''d'', PublicKey = ''q''\<rparr>\<rparr>"

definition demo_transition :: "Hash \<Rightarrow> Hash \<Rightarrow> TransitionInfo" where
  "demo_transition s0 s1 = \<lparr>Identifier = 9, LatestState = s0, NewState = s1,
     IsOldStateGenesis = True, Proof = \<lparr>pi_a = [], pi_b = [], pi_c = []\<rparr>\<rparr>"

section \<open>Package schema: loading and hashing a schema\<close>

text \<open>
  \<^verbatim>\<open>url.Parse\<close> yields the scheme and the host of a url; the loaders, the validator,
  the parser and Keccak-256 (a digest of 32 bytes) belong to libraries; \<open>JSONLD\<close> is
  the constant \<^verbatim>\<open>models.JSONLD\<close>.  \<open>Load\<close> is the answer of the network to a
  loader at the time of the call.
\<close>

record url_URL =
  Scheme :: string
  Host :: string
  url_String :: string

datatype SchemaLoader = HTTP string | IPFS string string

record ParsedSlots =
  IndexA :: bytes
  IndexB :: bytes
  ValueA :: bytes
  ValueB :: bytes

record schema_lib =
  url_Parse :: "string \<Rightarrow> string + url_URL"
  Load :: "SchemaLoader \<Rightarrow> string + bytes"
  ValidateData :: "string \<Rightarrow> bytes \<Rightarrow> bytes \<Rightarrow> string option"
  ParseSlots :: "string \<Rightarrow> bytes \<Rightarrow> bytes \<Rightarrow> string + ParsedSlots"
  Keccak256 :: "bytes list \<Rightarrow> bytes"
  hex_EncodeToString :: "bytes \<Rightarrow> string"
  JSONLD :: string

definition getLoader :: "schema_lib \<Rightarrow> string \<Rightarrow> error + SchemaLoader" where
  "getLoader X url =
     (case url_Parse X url of
        Inl err \<Rightarrow> Inl (Ext err)
      | Inr schemaURL \<Rightarrow>
          if Scheme schemaURL = ''http'' \<or> Scheme schemaURL = ''https'' then Inr (HTTP url)
          else if Scheme schemaURL = ''ipfs''
          then Inr (IPFS (url_String schemaURL) (Host schemaURL))
          else Inl (ErrNew (''loader for '' @ Scheme schemaURL @ '' is not supported'')))"

definition getParsedSlots :: "schema_lib \<Rightarrow> string \<Rightarrow> string \<Rightarrow> bytes \<Rightarrow> error + ParsedSlots" where
  "getParsedSlots X schemaURL credentialType dataBytes =
     (case getLoader X schemaURL of
        Inl err \<Rightarrow> Inl err
      | Inr loader \<Rightarrow>
          (case Load X loader of
             Inl err \<Rightarrow> Inl (Ext err)
           | Inr schema \<Rightarrow>
               (case ValidateData X credentialType dataBytes schema of
                  Some err \<Rightarrow> Inl (Ext err)
                | None \<Rightarrow> ext (ParseSlots X credentialType dataBytes schema))))"

text \<open>In \<^verbatim>\<open>load\<close> the cache value is never set, so the branch that downloads the schema
  is the only one that runs.\<close>

definition load :: "schema_lib \<Rightarrow> string \<Rightarrow> error + (bytes \<times> string)" where
  "load X schemaURL =
     (case getLoader X schemaURL of
        Inl err \<Rightarrow> Inl err
      | Inr loader \<Rightarrow>
          (case Load X loader of
             Inl err \<Rightarrow> Inl (Ext err)
           | Inr schemaBytes \<Rightarrow> Inr (schemaBytes, JSONLD X)))"

definition createSchemaHash :: "schema_lib \<Rightarrow> bytes \<Rightarrow> string \<Rightarrow> string" where
  "createSchemaHash X schemaBytes credentialType =
     (let h = Keccak256 X [schemaBytes, credentialType];
          sHash = drop (length h - 16) h
      in hex_EncodeToString X sHash)"

definition Process :: "schema_lib \<Rightarrow> string \<Rightarrow> string \<Rightarrow> bytes \<Rightarrow> error + (ParsedSlots \<times> string)" where
  "Process X url type data =
     (case load X url of
        Inl err \<Rightarrow> Inl err
      | Inr (schemaBytes, extension) \<Rightarrow>
          (case getParsedSlots X url type data of
             Inl err \<Rightarrow> Inl err
           | Inr slots \<Rightarrow> Inr (slots, createSchemaHash X schemaBytes type)))"

section \<open>Package state: the three trees and the state hash\<close>

text \<open>
  The core claim of \<^verbatim>\<open>go-iden3-core\<close> is kept as the fields it encodes, and the claim
  record \<^verbatim>\<open>claim.Claim\<close> of the database as the fields the identity reads and writes;
  both types are declared outside the modelled files.
\<close>

record CoreClaim =
  cc_SchemaHash :: string
  cc_IndexData :: "int list"
  cc_ValueData :: "int list"
  cc_SubjectID :: string
  cc_Expiration :: int
  cc_Version :: "32 word"
  cc_RevNonce :: "64 word"
  cc_SubjectPosition :: string

record ClaimModel =
  cm_ID :: bytes
  cm_Identifier :: string
  cm_Issuer :: string
  cm_SchemaURL :: string
  cm_SchemaType :: string
  cm_RevNonce :: "64 word"
  cm_CredentialStatus :: bytes
  cm_Data :: bytes
  cm_MTPProof :: bytes
  cm_SignatureProof :: bytes

text \<open>
  An identity state holds the trees of \<^verbatim>\<open>Claims\<close>, \<^verbatim>\<open>Revocations\<close> and
  \<^verbatim>\<open>Roots\<close> and the database.  The three wrappers are declared outside the modelled
  files; each is a Merkle tree and a pointer to the same database, so a field here is the
  tree itself (\<^verbatim>\<open>is.Claims.Tree\<close>) and the database is held once.  The type \<open>'t\<close> is
  the library's \<^verbatim>\<open>merkletree.MerkleTree\<close> with its in-memory root and its stored
  nodes, \<open>'d\<close> is the rest of the database: the claim records and the saved identity.
\<close>

record ('t, 'd) IdentityState =
  Claims :: 't
  Revocations :: 't
  Roots :: 't
  db :: 'd

text \<open>
  What package state calls outside the modelled files.  \<open>HashElems\<close> is the Poseidon
  hash \<^verbatim>\<open>merkletree.HashElems\<close>, \<open>Root\<close> is \<^verbatim>\<open>MerkleTree.Root\<close> and \<open>Tree_Add\<close>
  is \<^verbatim>\<open>MerkleTree.Add\<close>; \<open>NewClaims\<close>, \<open>NewRevocations\<close> and \<open>NewRoots\<close> open the
  trees on a database; the other fields are the methods of \<^verbatim>\<open>Claims\<close>,
  \<^verbatim>\<open>Revocations\<close> and of the database \<^verbatim>\<open>db.DB\<close>.  A call that writes returns its
  error, if any, together with the tree or database as the call left it; nothing is
  assumed about what a failed write leaves behind.
\<close>

record ('t, 'd) state_lib =
  HashElems :: "int list \<Rightarrow> string + Hash"
  Root :: "'t \<Rightarrow> Hash"
  Tree_Add :: "'t \<Rightarrow> int \<Rightarrow> int \<Rightarrow> string option \<times> 't"
  NewClaims :: "'d \<Rightarrow> int \<Rightarrow> string + 't"
  NewRevocations :: "'d \<Rightarrow> int \<Rightarrow> string + 't"
  NewRoots :: "'d \<Rightarrow> int \<Rightarrow> string + 't"
  SaveClaimMT :: "'t \<Rightarrow> CoreClaim \<Rightarrow> string option \<times> 't"
  SaveClaimDB :: "'d \<Rightarrow> ClaimModel \<Rightarrow> string option \<times> 'd"
  Claims_GetClaim :: "'d \<Rightarrow> bytes \<Rightarrow> string + ClaimModel"
  GenerateProof :: "'t \<Rightarrow> int \<Rightarrow> string + bytes"
  GenerateRevocationProof :: "'t \<Rightarrow> int \<Rightarrow> string + bytes"
  db_SaveIdentity :: "'d \<Rightarrow> bytes \<Rightarrow> bytes \<Rightarrow> string option \<times> 'd"
  db_GetSavedIdentity :: "'d \<Rightarrow> string + (bytes \<times> bytes) option"
  SaveIdentityString :: "'d \<Rightarrow> string \<Rightarrow> string option \<times> 'd"
  IDFromBytes :: "bytes \<Rightarrow> string + ID"
  uuid_Parse :: "string \<Rightarrow> string + string"
  ID_Bytes :: "ID \<Rightarrow> bytes"

definition NewIdentityState ::
  "('t, 'd) state_lib \<Rightarrow> 'd \<Rightarrow> int \<Rightarrow> error + ('t, 'd) IdentityState" where
  "NewIdentityState S d treeDepth =
     (case NewClaims S d treeDepth of
        Inl err \<Rightarrow> Inl (Ext err)
      | Inr claims \<Rightarrow>
          (case NewRevocations S d treeDepth of
             Inl err \<Rightarrow> Inl (Ext err)
           | Inr revs \<Rightarrow>
               (case NewRoots S d treeDepth of
                  Inl err \<Rightarrow> Inl (Ext err)
                | Inr roots \<Rightarrow>
                    Inr \<lparr>Claims = claims, Revocations = revs, Roots = roots, db = d\<rparr>)))"

text \<open>\<^verbatim>\<open>SaveIdentity\<close> as package state declares it: identifier bytes and the text of
  the auth claim's UUID go to the database.\<close>

definition SaveIdentity ::
  "('t, 'd) state_lib \<Rightarrow> ID \<Rightarrow> string \<Rightarrow> ('t, 'd) IdentityState
     \<Rightarrow> error option \<times> ('t, 'd) IdentityState" where
  "SaveIdentity S identifier authClaimId is =
     (let idBytes = ID_Bytes S identifier; authId = authClaimId in
      case db_SaveIdentity S (db is) idBytes authId of
        (err, d) \<Rightarrow> (map_option Ext err, is\<lparr>db := d\<rparr>))"

definition GetIdentityFromDB ::
  "('t, 'd) state_lib \<Rightarrow> ('t, 'd) IdentityState \<Rightarrow> error + (ID \<times> string) option" where
  "GetIdentityFromDB S is =
     (case db_GetSavedIdentity S (db is) of
        Inl err \<Rightarrow> Inl (Ext err)
      | Inr None \<Rightarrow> Inr None
      | Inr (Some (idBytes, authClaimId)) \<Rightarrow>
          (case IDFromBytes S idBytes of
             Inl err \<Rightarrow> Inl (Ext err)
           | Inr coreId \<Rightarrow>
               (case uuid_Parse S authClaimId of
                  Inl err \<Rightarrow> Inl (Ext err)
                | Inr claimId \<Rightarrow> Inr (Some (coreId, claimId)))))"

definition AddClaimToTree ::
  "('t, 'd) state_lib \<Rightarrow> CoreClaim \<Rightarrow> ('t, 'd) IdentityState
     \<Rightarrow> error option \<times> ('t, 'd) IdentityState" where
  "AddClaimToTree S c is =
     (case SaveClaimMT S (Claims is) c of
        (err, t) \<Rightarrow> (map_option Ext err, is\<lparr>Claims := t\<rparr>))"

definition AddClaimToDB ::
  "('t, 'd) state_lib \<Rightarrow> ClaimModel \<Rightarrow> ('t, 'd) IdentityState
     \<Rightarrow> error option \<times> ('t, 'd) IdentityState" where
  "AddClaimToDB S c is =
     (case SaveClaimDB S (db is) c of
        (err, d) \<Rightarrow> (map_option Ext err, is\<lparr>db := d\<rparr>))"

definition GetStateHash :: "('t, 'd) state_lib \<Rightarrow> ('t, 'd) IdentityState \<Rightarrow> error + Hash" where
  "GetStateHash S is =
     ext (HashElems S
       [Hash_BigInt (Root S (Claims is)),
        Hash_BigInt (Root S (Revocations is)),
        Hash_BigInt (Root S (Roots is))])"

section \<open>Package identity\<close>

text \<open>The request and response types of package \<^verbatim>\<open>issuer_contract\<close> and the proof
  types of \<^verbatim>\<open>go-schema-processor/verifiable\<close>, with the fields the identity uses.\<close>

record SchemaRef =
  sch_URL :: string
  sch_Type :: string

record CreateClaimRequest =
  req_Schema :: SchemaRef
  req_Data :: bytes
  req_Identifier :: string
  req_Expiration :: int
  req_Version :: "32 word"
  req_RevNonce :: "64 word"
  req_SubjectPosition :: string

record CreateClaimResponse =
  resp_ID :: string

record CoreClaimData =
  EncodedSchema :: string
  Slots :: ParsedSlots
  SubjectID :: string
  Expiration :: int
  Version :: "32 word"
  ccd_Nonce :: "64 word"
  SubjectPosition :: string

record verifiable_State =
  st_Value :: "string option"
  st_ClaimsTreeRoot :: "string option"

record IssuerData =
  iss_ID :: "ID option"
  iss_State :: verifiable_State
  iss_AuthClaim :: bytes
  iss_MTP :: bytes
  RevocationStatus :: string

record Iden3SparseMerkleProof =
  mtp_Type :: string
  mtp_IssuerData :: IssuerData
  mtp_MTP :: bytes

record BJJSignatureProof2021 =
  sig_Type :: string
  sig_IssuerData :: IssuerData
  sig_Signature :: bytes

record contract_IdentityState =
  cis_Identifier :: string
  cis_State :: string
  ClaimsTreeRoot :: string
  RevocationTreeRoot :: string
  RootOfRoots :: string

record GetIdentityResponse =
  gir_Identifier :: string
  gir_State :: contract_IdentityState

record GetRevocationStatusResponse =
  rs_MTP :: bytes
  rs_Issuer :: contract_IdentityState

text \<open>
  What package identity calls outside the modelled files: constants of package schema,
  the Baby Jubjub key (\<open>bjj_Public\<close>, \<open>SignPoseidon\<close> with the compression of the
  signature), \<^verbatim>\<open>go-iden3-core\<close> (\<open>NewSchemaHashFromHex\<close>, \<open>HIndex\<close>,
  \<open>IdGenesisFromIdenState\<close>, \<open>TypeDefault\<close>, \<open>ID_String\<close>), package claim of the
  repository, and \<^verbatim>\<open>json.Marshal\<close> at each of the three types it is used at.
  \<open>SignClaimEntry\<close> receives the signing function of the identity and may return its
  error.
\<close>

record identity_lib =
  AuthBJJCredentialHash :: string
  AuthBJJCredentialURL :: string
  AuthBJJCredential :: string
  TypeDefault :: bytes
  SparseMerkleTreeProof :: string
  Iden3SparseMerkleProofType :: string
  NewSchemaHashFromHex :: "string \<Rightarrow> string + bytes"
  bjj_Public :: "bytes \<Rightarrow> int \<times> int"
  SignPoseidon :: "bytes \<Rightarrow> int \<Rightarrow> bytes"
  NewAuthClaim :: "int \<times> int \<Rightarrow> bytes \<Rightarrow> string + CoreClaim"
  HIndex :: "CoreClaim \<Rightarrow> string + int"
  IdGenesisFromIdenState :: "bytes \<Rightarrow> int \<Rightarrow> string + ID"
  ID_String :: "ID \<Rightarrow> string"
  Hash_Hex :: "Hash \<Rightarrow> string"
  GenerateCoreClaim :: "CoreClaimData \<Rightarrow> string + CoreClaim"
  CoreClaimToClaimModel :: "CoreClaim \<Rightarrow> string \<Rightarrow> string \<Rightarrow> string + ClaimModel"
  CreateCredentialStatus :: "string \<Rightarrow> string \<Rightarrow> 64 word \<Rightarrow> string + bytes"
  SignClaimEntry :: "ClaimModel \<Rightarrow> (int \<Rightarrow> error + bytes) \<Rightarrow> error + BJJSignatureProof2021"
  ClaimModelToIden3Credential :: "ClaimModel \<Rightarrow> string + bytes"
  Marshal_claimData :: "(string \<times> string) list \<Rightarrow> string + bytes"
  Marshal_mtProof :: "Iden3SparseMerkleProof \<Rightarrow> string + bytes"
  Marshal_sigProof :: "BJJSignatureProof2021 \<Rightarrow> string + bytes"
  schema :: schema_lib

text \<open>The pointers \<^verbatim>\<open>Identifier\<close> and \<^verbatim>\<open>authClaimId\<close> are nil until \<^verbatim>\<open>init\<close>
  sets them; a method call through a nil pointer panics.\<close>

record ('t, 'd) Identity =
  sk :: bytes
  Identifier :: "ID option"
  authClaimId :: "int option"
  state :: "('t, 'd) IdentityState"
  baseUrl :: string

definition nil_deref :: error where
  "nil_deref = Panic ''invalid memory address or nil pointer dereference''"

text \<open>\<^verbatim>\<open>err.Error()\<close>, as \<^verbatim>\<open>%v\<close> prints an error.\<close>

fun Error :: "error \<Rightarrow> string" where
  "Error (ErrNew m) = m"
| "Error (Wrap e m) = m @ '': '' @ Error e"
| "Error (WithStack e) = Error e"
| "Error (Ext m) = m"
| "Error (Panic m) = m"

text \<open>\<^verbatim>\<open>big.Int.Bytes\<close> (big-endian bytes of the absolute value),
  \<^verbatim>\<open>big.Int.SetBytes\<close> and \<^verbatim>\<open>utils.SwapEndianness\<close>.\<close>

function nat_Bytes :: "nat \<Rightarrow> bytes" where
  "nat_Bytes n = (if n = 0 then [] else nat_Bytes (n div 256) @ [char_of (n mod 256)])"
  by pat_completeness auto
termination
  by (relation "measure (\<lambda>n. n)") auto

declare nat_Bytes.simps [simp del]

definition BigInt_Bytes :: "int \<Rightarrow> bytes" where
  "BigInt_Bytes x = nat_Bytes (nat \<bar>x\<bar>)"

definition SetBytes :: "bytes \<Rightarrow> int" where
  "SetBytes buf = foldl (\<lambda>acc b. acc * 256 + int (of_char b)) 0 buf"

definition SwapEndianness :: "bytes \<Rightarrow> bytes" where
  "SwapEndianness b = rev b"

text \<open>The order of the BN254 scalar field; \<^verbatim>\<open>CheckBigIntInField\<close> compares with it.\<close>

definition Q :: int where
  "Q = 21888242871839275222246405745257275088548364400416034343698204186575808495617"

definition CheckBigIntInField :: "int \<Rightarrow> bool" where
  "CheckBigIntInField a = (a < Q)"

definition sign :: "identity_lib \<Rightarrow> ('t, 'd) Identity \<Rightarrow> int \<Rightarrow> error + bytes" where
  "sign K i z =
     (if \<not> CheckBigIntInField z then Inl (ErrNew ''data to signBytes is too large'')
      else Inr (SignPoseidon K (sk i) z))"

definition signBytes :: "identity_lib \<Rightarrow> ('t, 'd) Identity \<Rightarrow> bytes \<Rightarrow> error + bytes" where
  "signBytes K i data =
     (if length data > 32 then Inl (ErrNew ''data to signBytes is too large'')
      else let z = SetBytes (SwapEndianness data) in sign K i z)"

definition setupGenesisState ::
  "('t, 'd) state_lib \<Rightarrow> identity_lib \<Rightarrow> ('t, 'd) Identity
     \<Rightarrow> (error + (ID \<times> CoreClaim)) \<times> ('t, 'd) Identity" where
  "setupGenesisState S K i =
     (case NewSchemaHashFromHex K (AuthBJJCredentialHash K) of
        Inl err \<Rightarrow> (Inl (Ext err), i)
      | Inr schemaHash \<Rightarrow>
     (case NewAuthClaim K (bjj_Public K (sk i)) schemaHash of
        Inl err \<Rightarrow> (Inl (Ext err), i)
      | Inr authClaim \<Rightarrow>
     (case AddClaimToTree S authClaim (state i) of
        (Some err, s1) \<Rightarrow> (Inl err, i\<lparr>state := s1\<rparr>)
      | (None, s1) \<Rightarrow>
     (let i1 = i\<lparr>state := s1\<rparr> in
      case HIndex K authClaim of
        Inl err \<Rightarrow> (Inl (Ext err), i1)
      | Inr claimId \<Rightarrow>
     (let i2 = i1\<lparr>authClaimId := Some claimId\<rparr> in
      case GetStateHash S (state i2) of
        Inl err \<Rightarrow> (Inl err, i2)
      | Inr currState \<Rightarrow>
     (case IdGenesisFromIdenState K (TypeDefault K) (Hash_BigInt currState) of
        Inl err \<Rightarrow> (Inl (Ext err), i2)
      | Inr identifier \<Rightarrow> (Inr (identifier, authClaim), i2)))))))"

text \<open>In \<^verbatim>\<open>generateProof\<close> the error of \<^verbatim>\<open>GetStateHash\<close> is overwritten unread; with
  an error the hash pointer is nil and \<^verbatim>\<open>Hex\<close> panics.\<close>

definition generateProof ::
  "('t, 'd) state_lib \<Rightarrow> identity_lib \<Rightarrow> ('t, 'd) Identity \<Rightarrow> int \<Rightarrow> error + bytes" where
  "generateProof S K i claimId =
     (case GenerateProof S (Claims (state i)) claimId of
        Inl err \<Rightarrow> Inl (Ext err)
      | Inr proof \<Rightarrow>
          (case GetStateHash S (state i) of
             Inl err \<Rightarrow> Inl nil_deref
           | Inr stateHash \<Rightarrow>
               (let stateHashHex = Hash_Hex K stateHash;
                    claimsRootHex = Hash_Hex K (Root S (Claims (state i)));
                    mtProof = \<lparr>mtp_Type = Iden3SparseMerkleProofType K,
                      mtp_IssuerData = \<lparr>iss_ID = Identifier i,
                        iss_State = \<lparr>st_Value = Some stateHashHex,
                                      st_ClaimsTreeRoot = Some claimsRootHex\<rparr>,
                        iss_AuthClaim = [], iss_MTP = [], RevocationStatus = []\<rparr>,
                      mtp_MTP = proof\<rparr>
                in ext (Marshal_mtProof K mtProof))))"

definition init ::
  "('t, 'd) state_lib \<Rightarrow> identity_lib \<Rightarrow> ('t, 'd) Identity
     \<Rightarrow> error option \<times> ('t, 'd) Identity" where
  "init S K i =
     (case setupGenesisState S K i of
        (Inl err, i1) \<Rightarrow> (Some err, i1)
      | (Inr (identifier, authClaim), i1) \<Rightarrow>
     (let i2 = i1\<lparr>Identifier := Some identifier\<rparr> in
      case authClaimId i2 of
        None \<Rightarrow> (Some nil_deref, i2)
      | Some aid \<Rightarrow>
     (case generateProof S K i2 aid of
        Inl err \<Rightarrow> (Some err, i2)
      | Inr proof \<Rightarrow>
     (case CoreClaimToClaimModel K authClaim (AuthBJJCredentialURL K) (AuthBJJCredential K) of
        Inl err \<Rightarrow> (Some (Ext err), i2)
      | Inr authClaimModel \<Rightarrow>
     (let claimData = [(''x'', show_int (fst (bjj_Public K (sk i2)))),
                       (''y'', show_int (snd (bjj_Public K (sk i2))))] in
      case Marshal_claimData K claimData of
        Inl err \<Rightarrow> (Some (Ext err), i2)
      | Inr marshalledClaimData \<Rightarrow>
     (let authClaimModel1 = authClaimModel\<lparr>
            cm_Data := marshalledClaimData,
            cm_Issuer := ID_String K identifier,
            cm_ID := BigInt_Bytes aid,
            cm_MTPProof := proof,
            cm_Identifier := ID_String K identifier\<rparr> in
      case AddClaimToDB S authClaimModel1 (state i2) of
        (err, s3) \<Rightarrow> (err, i2\<lparr>state := s3\<rparr>)))))))"

text \<open>
  \<^verbatim>\<open>New\<close> returns the identity (nil after a failed \<^verbatim>\<open>init\<close>) and the error; the third
  component is the identity state the caller's pointer \<^verbatim>\<open>s\<close> refers to afterwards.  The
  method \<^verbatim>\<open>SaveIdentity\<close> is called here with the identifier's text alone, which is the
  database call \<open>SaveIdentityString\<close>.
\<close>

definition New ::
  "('t, 'd) state_lib \<Rightarrow> identity_lib \<Rightarrow> ('t, 'd) IdentityState \<Rightarrow> bytes \<Rightarrow> string
     \<Rightarrow> ('t, 'd) Identity option \<times> error option \<times> ('t, 'd) IdentityState" where
  "New S K s secret hostUrl =
     (let iden = \<lparr>sk = secret, Identifier = None, authClaimId = None, state = s,
                  baseUrl = hostUrl\<rparr> in
      case init S K iden of
        (Some (Panic m), iden1) \<Rightarrow> (None, Some (Panic m), state iden1)
      | (Some err, iden1) \<Rightarrow>
          (None, Some (ErrNew (''error on identitiy initialization, '' @ Error err)), state iden1)
      | (None, iden1) \<Rightarrow>
          (case Identifier iden1 of
             None \<Rightarrow> (None, Some nil_deref, state iden1)
           | Some identifier \<Rightarrow>
               (case SaveIdentityString S (db (state iden1)) (ID_String K identifier) of
                  (err, d) \<Rightarrow>
                    (let s1 = (state iden1)\<lparr>db := d\<rparr>
                     in (Some (iden1\<lparr>state := s1\<rparr>), map_option Ext err, s1)))))"

definition AddClaim ::
  "('t, 'd) state_lib \<Rightarrow> identity_lib \<Rightarrow> CreateClaimRequest \<Rightarrow> ('t, 'd) Identity
     \<Rightarrow> (error + CreateClaimResponse) \<times> ('t, 'd) Identity" where
  "AddClaim S K cReq i =
     (case Process (schema K) (sch_URL (req_Schema cReq)) (sch_Type (req_Schema cReq))
             (req_Data cReq) of
        Inl err \<Rightarrow> (Inl err, i)
      | Inr (slots, encodedSchema) \<Rightarrow>
     (let claimReq = \<lparr>EncodedSchema = encodedSchema, Slots = slots,
            SubjectID = req_Identifier cReq, Expiration = req_Expiration cReq,
            Version = req_Version cReq, ccd_Nonce = req_RevNonce cReq,
            SubjectPosition = req_SubjectPosition cReq\<rparr> in
      case GenerateCoreClaim K claimReq of
        Inl err \<Rightarrow> (Inl (Ext err), i)
      | Inr coreClaim \<Rightarrow>
     (case CoreClaimToClaimModel K coreClaim (sch_URL (req_Schema cReq))
             (sch_Type (req_Schema cReq)) of
        Inl err \<Rightarrow> (Inl (Ext err), i)
      | Inr claimModel \<Rightarrow>
     (case Identifier i of
        None \<Rightarrow> (Inl nil_deref, i)
      | Some identifier \<Rightarrow>
     (let issuerIDString = ID_String K identifier in
      case CreateCredentialStatus K (baseUrl i) (SparseMerkleTreeProof K)
             (cm_RevNonce claimModel) of
        Inl err \<Rightarrow> (Inl (Ext err), i)
      | Inr cs \<Rightarrow>
     (let claimModel1 = claimModel\<lparr>cm_CredentialStatus := cs\<rparr> in
      case authClaimId i of
        None \<Rightarrow> (Inl nil_deref, i)
      | Some aid \<Rightarrow>
     (case Claims_GetClaim S (db (state i)) (BigInt_Bytes aid) of
        Inl err \<Rightarrow> (Inl (Ext err), i)
      | Inr c \<Rightarrow>
     (case SignClaimEntry K c (sign K i) of
        Inl err \<Rightarrow> (Inl err, i)
      | Inr proof \<Rightarrow>
     (let proof1 = proof\<lparr>sig_IssuerData := (sig_IssuerData proof)\<lparr>RevocationStatus :=
            baseUrl i @ ''/api/v1/claims/revocation/status/''
              @ show_nat (unat (cm_RevNonce claimModel1))\<rparr>\<rparr>;
          claimModel2 = claimModel1\<lparr>cm_Identifier := issuerIDString,
            cm_Issuer := issuerIDString\<rparr> in
      case Marshal_sigProof K proof1 of
        Inl err \<Rightarrow> (Inl (Ext err), i)
      | Inr jsonSignatureProof \<Rightarrow>
     (let claimModel3 = claimModel2\<lparr>cm_SignatureProof := jsonSignatureProof,
            cm_Data := req_Data cReq\<rparr> in
      case AddClaimToTree S coreClaim (state i) of
        (Some err, s1) \<Rightarrow> (Inl err, i\<lparr>state := s1\<rparr>)
      | (None, s1) \<Rightarrow>
     (let i1 = i\<lparr>state := s1\<rparr> in
      case AddClaimToDB S claimModel3 (state i1) of
        (Some err, s2) \<Rightarrow> (Inl err, i1\<lparr>state := s2\<rparr>)
      | (None, s2) \<Rightarrow>
     (let i2 = i1\<lparr>state := s2\<rparr> in
      case SaveIdentityString S (db (state i2)) (ID_String K identifier) of
        (Some err, d) \<Rightarrow> (Inl (Ext err), i2\<lparr>state := (state i2)\<lparr>db := d\<rparr>\<rparr>)
      | (None, d) \<Rightarrow>
          (Inr \<lparr>resp_ID = cm_ID claimModel3\<rparr>,
           i2\<lparr>state := (state i2)\<lparr>db := d\<rparr>\<rparr>)))))))))))))"

text \<open>
  The statements of \<^verbatim>\<open>AddClaim\<close> above the comment \<^verbatim>\<open>adding claim to the claims tree\<close>
  read the identity and change nothing.  \<open>AddClaim_prepare\<close> is that part on its own: it
  yields the core claim, the finished claim record and the identifier, or the first
  error.  Lemma \<open>AddClaim_split\<close> below shows that \<open>AddClaim\<close> is this part followed by
  the three writes.
\<close>

definition AddClaim_prepare ::
  "('t, 'd) state_lib \<Rightarrow> identity_lib \<Rightarrow> CreateClaimRequest \<Rightarrow> ('t, 'd) Identity
     \<Rightarrow> error + (CoreClaim \<times> ClaimModel \<times> ID)" where
  "AddClaim_prepare S K cReq i =
     (case Process (schema K) (sch_URL (req_Schema cReq)) (sch_Type (req_Schema cReq))
             (req_Data cReq) of
        Inl err \<Rightarrow> Inl err
      | Inr (slots, encodedSchema) \<Rightarrow>
     (let claimReq = \<lparr>EncodedSchema = encodedSchema, Slots = slots,
            SubjectID = req_Identifier cReq, Expiration = req_Expiration cReq,
            Version = req_Version cReq, ccd_Nonce = req_RevNonce cReq,
            SubjectPosition = req_SubjectPosition cReq\<rparr> in
      case GenerateCoreClaim K claimReq of
        Inl err \<Rightarrow> Inl (Ext err)
      | Inr coreClaim \<Rightarrow>
     (case CoreClaimToClaimModel K coreClaim (sch_URL (req_Schema cReq))
             (sch_Type (req_Schema cReq)) of
        Inl err \<Rightarrow> Inl (Ext err)
      | Inr claimModel \<Rightarrow>
     (case Identifier i of
        None \<Rightarrow> Inl nil_deref
      | Some identifier \<Rightarrow>
     (let issuerIDString = ID_String K identifier in
      case CreateCredentialStatus K (baseUrl i) (SparseMerkleTreeProof K)
             (cm_RevNonce claimModel) of
        Inl err \<Rightarrow> Inl (Ext err)
      | Inr cs \<Rightarrow>
     (let claimModel1 = claimModel\<lparr>cm_CredentialStatus := cs\<rparr> in
      case authClaimId i of
        None \<Rightarrow> Inl nil_deref
      | Some aid \<Rightarrow>
     (case Claims_GetClaim S (db (state i)) (BigInt_Bytes aid) of
        Inl err \<Rightarrow> Inl (Ext err)
      | Inr c \<Rightarrow>
     (case SignClaimEntry K c (sign K i) of
        Inl err \<Rightarrow> Inl err
      | Inr proof \<Rightarrow>
     (let proof1 = proof\<lparr>sig_IssuerData := (sig_IssuerData proof)\<lparr>RevocationStatus :=
            baseUrl i @ ''/api/v1/claims/revocation/status/''
              @ show_nat (unat (cm_RevNonce claimModel1))\<rparr>\<rparr>;
          claimModel2 = claimModel1\<lparr>cm_Identifier := issuerIDString,
            cm_Issuer := issuerIDString\<rparr> in
      case Marshal_sigProof K proof1 of
        Inl err \<Rightarrow> Inl (Ext err)
      | Inr jsonSignatureProof \<Rightarrow>
          Inr (coreClaim,
               claimModel2\<lparr>cm_SignatureProof := jsonSignatureProof,
                 cm_Data := req_Data cReq\<rparr>,
               identifier))))))))))"

definition GetClaim ::
  "('t, 'd) state_lib \<Rightarrow> identity_lib \<Rightarrow> ('t, 'd) Identity \<Rightarrow> string \<Rightarrow> error + bytes" where
  "GetClaim S K i cid =
     (case Claims_GetClaim S (db (state i)) cid of
        Inl err \<Rightarrow> Inl (Ext err)
      | Inr claimModel \<Rightarrow> ext (ClaimModelToIden3Credential K claimModel))"

definition GetIdentity ::
  "('t, 'd) state_lib \<Rightarrow> identity_lib \<Rightarrow> ('t, 'd) Identity \<Rightarrow> error + GetIdentityResponse" where
  "GetIdentity S K i =
     (case GetStateHash S (state i) of
        Inl err \<Rightarrow> Inl err
      | Inr stateHash \<Rightarrow>
          (case Identifier i of
             None \<Rightarrow> Inl nil_deref
           | Some identifier \<Rightarrow>
               Inr \<lparr>gir_Identifier = ID_String K identifier,
                    gir_State = \<lparr>cis_Identifier = ID_String K identifier,
                      cis_State = Hash_Hex K stateHash,
                      ClaimsTreeRoot = Hash_Hex K (Root S (Claims (state i))),
                      RevocationTreeRoot = Hash_Hex K (Root S (Revocations (state i))),
                      RootOfRoots = Hash_Hex K (Root S (Roots (state i)))\<rparr>\<rparr>))"

definition GetRevocationStatus ::
  "('t, 'd) state_lib \<Rightarrow> identity_lib \<Rightarrow> ('t, 'd) Identity \<Rightarrow> 64 word
     \<Rightarrow> error + GetRevocationStatusResponse" where
  "GetRevocationStatus S K i nonce =
     (let rID = uint nonce in
      case GenerateRevocationProof S (Revocations (state i)) rID of
        Inl err \<Rightarrow> Inl (Ext err)
      | Inr mtp \<Rightarrow>
          (case GetStateHash S (state i) of
             Inl err \<Rightarrow> Inl err
           | Inr stateHash \<Rightarrow>
               Inr \<lparr>rs_MTP = mtp,
                    rs_Issuer = \<lparr>cis_Identifier = [],
                      cis_State = Hash_Hex K stateHash,
                      ClaimsTreeRoot = Hash_Hex K (Root S (Claims (state i))),
                      RevocationTreeRoot = Hash_Hex K (Root S (Revocations (state i))),
                      RootOfRoots = Hash_Hex K (Root S (Roots (state i)))\<rparr>\<rparr>))"

text \<open>
  Modelled from the spec: revocation, which none of the modelled files implements.  The
  spec's \<^verbatim>\<open>revoke(nonce, version)\<close> is \<^verbatim>\<open>Revocations.add(nonce, version)\<close> and
  fails on a duplicate; on the identity it changes the Revocations tree and nothing else.
\<close>

definition Revoke ::
  "('t, 'd) state_lib \<Rightarrow> 64 word \<Rightarrow> 32 word \<Rightarrow> ('t, 'd) Identity
     \<Rightarrow> error option \<times> ('t, 'd) Identity" where
  "Revoke S nonce version i =
     (case Tree_Add S (Revocations (state i)) (uint nonce) (uint version) of
        (err, t) \<Rightarrow> (map_option Ext err, i\<lparr>state := (state i)\<lparr>Revocations := t\<rparr>\<rparr>))"

text \<open>A sequence of calls on one identity; a call that fails leaves the identity as the
  call left it, and the next call runs on that.\<close>

datatype call = CallAddClaim CreateClaimRequest | CallRevoke "64 word" "32 word"

fun run :: "('t, 'd) state_lib \<Rightarrow> identity_lib \<Rightarrow> call list \<Rightarrow> ('t, 'd) Identity
    \<Rightarrow> ('t, 'd) Identity" where
  "run S K [] i = i"
| "run S K (CallAddClaim cReq # cs) i = run S K cs (snd (AddClaim S K cReq i))"
| "run S K (CallRevoke nonce version # cs) i = run S K cs (snd (Revoke S nonce version i))"

section \<open>A concrete instance of the libraries\<close>

text \<open>
  To run the identity on concrete inputs, the libraries are instantiated with small
  stand-ins: a tree is the list of its leaves in insertion order, its root is 0 when
  empty and otherwise a positional hash of the leaves, the database keeps claim records
  in a list and refuses a record once \<open>capacity\<close> records are stored, and the codec,
  the signer and \<^verbatim>\<open>json.Marshal\<close> print their arguments.  The stand-in of Poseidon,
  \<open>demo_hash\<close>, writes its arguments (each increased by one) as digits in base 1000.
\<close>

definition demo_hash :: "int list \<Rightarrow> int" where
  "demo_hash xs = foldl (\<lambda>acc x. acc * 1000 + x + 1) 0 xs"

type_synonym demo_tree = "(int \<times> int) list"

record demo_db =
  claims :: "(bytes \<times> ClaimModel) list"
  saved :: "string option"
  capacity :: nat

definition demo_Root :: "demo_tree \<Rightarrow> Hash" where
  "demo_Root t = (if t = [] then 0
     else word_of_int (demo_hash (concat (map (\<lambda>(k, v). [k, v]) t))))"

definition demo_Add :: "demo_tree \<Rightarrow> int \<Rightarrow> int \<Rightarrow> string option \<times> demo_tree" where
  "demo_Add t k v =
     (if k \<in> set (map fst t) then (Some ''the entry index already exists in the tree'', t)
      else (None, t @ [(k, v)]))"

definition demo_HIndex :: "CoreClaim \<Rightarrow> int" where
  "demo_HIndex c = demo_hash (cc_IndexData c)"

definition demo_HValue :: "CoreClaim \<Rightarrow> int" where
  "demo_HValue c = demo_hash (uint (cc_RevNonce c) # cc_ValueData c)"

definition demo_state_lib :: "(demo_tree, demo_db) state_lib" where
  "demo_state_lib = \<lparr>
     HashElems = (\<lambda>xs. Inr (word_of_int (demo_hash xs))),
     Root = demo_Root,
     Tree_Add = demo_Add,
     NewClaims = (\<lambda>d depth. Inr []),
     NewRevocations = (\<lambda>d depth. Inr []),
     NewRoots = (\<lambda>d depth. Inr []),
     SaveClaimMT = (\<lambda>t c. demo_Add t (demo_HIndex c) (demo_HValue c)),
     SaveClaimDB = (\<lambda>d c. if capacity d \<le> length (claims d) then (Some ''disk full'', d)
                            else (None, d\<lparr>claims := claims d @ [(cm_ID c, c)]\<rparr>)),
     Claims_GetClaim = (\<lambda>d k. case map_of (claims d) k of None \<Rightarrow> Inl ''claim not found''
                                | Some c \<Rightarrow> Inr c),
     GenerateProof = (\<lambda>t k. Inr (''proof-of-'' @ show_int k)),
     GenerateRevocationProof = (\<lambda>t k. Inr (''revocation-proof-of-'' @ show_int k)),
     db_SaveIdentity = (\<lambda>d a b. (None, d\<lparr>saved := Some a\<rparr>)),
     db_GetSavedIdentity = (\<lambda>d. Inr None),
     SaveIdentityString = (\<lambda>d a. (None, d\<lparr>saved := Some a\<rparr>)),
     IDFromBytes = (\<lambda>b. Inl ''not an id''),
     uuid_Parse = (\<lambda>s. Inr s),
     ID_Bytes = (\<lambda>i. show_nat (unat i))\<rparr>"

definition demo_schema_lib :: schema_lib where
  "demo_schema_lib = \<lparr>
     url_Parse = (\<lambda>u. if take 7 u = ''ipfs://''
                       then Inr \<lparr>Scheme = ''ipfs'', Host = drop 7 u, url_String = u\<rparr>
                       else Inl ''unsupported url''),
     Load = (\<lambda>l. Inr ''schema''),
     ValidateData = (\<lambda>t d sch. if d = [] then Some ''no data'' else None),
     ParseSlots = (\<lambda>t d sch. Inr \<lparr>IndexA = d, IndexB = [], ValueA = [], ValueB = []\<rparr>),
     Keccak256 = (\<lambda>bs. take 32 (concat bs @ ''00000000000000000000000000000000'')),
     hex_EncodeToString = (\<lambda>b. b),
     JSONLD = ''json-ld''\<rparr>"

definition demo_identity_lib :: identity_lib where
  "demo_identity_lib = \<lparr>
     AuthBJJCredentialHash = ''ca938857241db9451ea329256b9c06e5'',
     AuthBJJCredentialURL = ''https://schema/auth.json-ld'',
     AuthBJJCredential = ''AuthBJJCredential'',
     TypeDefault = [CHR 0x00, CHR 0x00],
     SparseMerkleTreeProof = ''SparseMerkleTreeProof'',
     Iden3SparseMerkleProofType = ''Iden3SparseMerkleProof'',
     NewSchemaHashFromHex = (\<lambda>h. Inr h),
     bjj_Public = (\<lambda>k. (int (length k), 7)),
     SignPoseidon = (\<lambda>k z. ''signature-of-'' @ show_int z),
     NewAuthClaim = (\<lambda>(x, y) h. Inr \<lparr>cc_SchemaHash = h, cc_IndexData = [x, y],
        cc_ValueData = [], cc_SubjectID = [], cc_Expiration = 0, cc_Version = 0,
        cc_RevNonce = 0, cc_SubjectPosition = []\<rparr>),
     HIndex = (\<lambda>c. Inr (demo_HIndex c)),
     IdGenesisFromIdenState = (\<lambda>t st. Inr (word_of_int st)),
     ID_String = (\<lambda>i. ''id-'' @ show_nat (unat i)),
     Hash_Hex = (\<lambda>h. show_nat (unat h)),
     GenerateCoreClaim = (\<lambda>d. Inr \<lparr>cc_SchemaHash = EncodedSchema d,
        cc_IndexData = [int (length (IndexA (Slots d))), uint (ccd_Nonce d)],
        cc_ValueData = [], cc_SubjectID = SubjectID d, cc_Expiration = Expiration d,
        cc_Version = Version d, cc_RevNonce = ccd_Nonce d,
        cc_SubjectPosition = SubjectPosition d\<rparr>),
     CoreClaimToClaimModel = (\<lambda>c u t. Inr \<lparr>cm_ID = show_int (demo_HIndex c),
        cm_Identifier = [], cm_Issuer = [], cm_SchemaURL = u, cm_SchemaType = t,
        cm_RevNonce = cc_RevNonce c, cm_CredentialStatus = [], cm_Data = [],
        cm_MTPProof = [], cm_SignatureProof = []\<rparr>),
     CreateCredentialStatus = (\<lambda>b t n. Inr (t @ ''-'' @ show_nat (unat n))),
     SignClaimEntry = (\<lambda>c f. case f (uint (cm_RevNonce c)) of Inl e \<Rightarrow> Inl e
        | Inr sg \<Rightarrow> Inr \<lparr>sig_Type = ''BJJSignature2021'',
            sig_IssuerData = \<lparr>iss_ID = None,
              iss_State = \<lparr>st_Value = None, st_ClaimsTreeRoot = None\<rparr>,
              iss_AuthClaim = cm_ID c, iss_MTP = cm_MTPProof c, RevocationStatus = []\<rparr>,
            sig_Signature = sg\<rparr>),
     ClaimModelToIden3Credential = (\<lambda>c. Inr (cm_Data c)),
     Marshal_claimData = (\<lambda>kv. Inr (concat (map (\<lambda>(k, v). k @ ''='' @ v @ '';'') kv))),
     Marshal_mtProof = (\<lambda>p. Inr (mtp_Type p @ '':'' @ mtp_MTP p)),
     Marshal_sigProof = (\<lambda>p. Inr (sig_Type p @ '';revocationStatus=''
        @ RevocationStatus (sig_IssuerData p) @ '';signature='' @ sig_Signature p)),
     schema = demo_schema_lib\<rparr>"

definition demo_store :: "nat \<Rightarrow> (demo_tree, demo_db) IdentityState" where
  "demo_store cap = \<lparr>Claims = [], Revocations = [], Roots = [],
     db = \<lparr>claims = [], saved = None, capacity = cap\<rparr>\<rparr>"

definition demo_request :: CreateClaimRequest where
  "demo_request = \<lparr>req_Schema = \<lparr>sch_URL = ''ipfs://Qm/kyc-age.json-ld'',
       sch_Type = ''KYCAgeCredential''\<rparr>,
     req_Data = ''birthday'', req_Identifier = ''11subject'', req_Expiration = 0,
     req_Version = 0, req_RevNonce = 7, req_SubjectPosition = ''index''\<rparr>"

text \<open>The identity that \<open>New\<close> builds on the empty demo store from the secret
  \<open>secret\<close> (lemma \<open>demo_New\<close> below).\<close>

definition demo_auth_record :: ClaimModel where
  "demo_auth_record = \<lparr>cm_ID = BigInt_Bytes 7008,
     cm_Identifier = ''id-7009003001001'', cm_Issuer = ''id-7009003001001'',
     cm_SchemaURL = ''https://schema/auth.json-ld'', cm_SchemaType = ''AuthBJJCredential'',
     cm_RevNonce = 0, cm_CredentialStatus = [], cm_Data = ''x=6;y=7;'',
     cm_MTPProof = ''Iden3SparseMerkleProof:proof-of-7008'', cm_SignatureProof = []\<rparr>"

definition demo_identity :: "nat \<Rightarrow> (demo_tree, demo_db) Identity" where
  "demo_identity cap = \<lparr>sk = ''secret'', Identifier = Some 7009003001001,
     authClaimId = Some 7008,
     state = \<lparr>Claims = [(7008, 1)], Revocations = [], Roots = [],
       db = \<lparr>claims = [(BigInt_Bytes 7008, demo_auth_record)],
              saved = Some ''id-7009003001001'', capacity = cap\<rparr>\<rparr>,
     baseUrl = ''http://issuer''\<rparr>"

text \<open>The record of the credential that \<open>AddClaim\<close> issues for \<open>demo_request\<close>.\<close>

definition demo_issued_record :: ClaimModel where
  "demo_issued_record = \<lparr>cm_ID = ''9008'',
     cm_Identifier = ''id-7009003001001'', cm_Issuer = ''id-7009003001001'',
     cm_SchemaURL = ''ipfs://Qm/kyc-age.json-ld'', cm_SchemaType = ''KYCAgeCredential'',
     cm_RevNonce = 7, cm_CredentialStatus = ''SparseMerkleTreeProof-7'',
     cm_Data = ''birthday'', cm_MTPProof = [],
     cm_SignatureProof = ''BJJSignature2021;revocationStatus=http://issuer/api/v1/claims/revocation/status/7;signature=signature-of-0''\<rparr>"

section \<open>Theorems\<close>

subsection \<open>The outbound client\<close>

lemma executeRequest_status:
  assumes "Do (base c) r = Inr resp" and "Body resp = Inr body"
  shows "executeRequest c r =
     (if StatusCode resp = 200 then Inr body
      else Inl (ErrNew (''http request failed with status '' @ show_int (StatusCode resp)
                     @ '', error: '' @ body)))"
  using assms by (simp add: executeRequest_def StatusOK_def)

lemma executeRequest_unread:
  assumes "Do (base c) r = Inr resp" and "Body resp = Inl m"
  shows "executeRequest c r = Inl (Ext m)"
  using assms by (simp add: executeRequest_def)

text \<open>
  Claim C10, as stated, fails.  The body is read before the status code is tested.  The
  demo server answers \<open>/cut\<close> with status 200 and a body that cannot be read: \<open>Get\<close>
  returns the read error, not a body, although the status code is exactly 200.  It
  answers \<open>/down\<close> with status 500 and a body that cannot be read: \<open>Post\<close> returns the
  read error, which carries neither the status code nor a body.
\<close>

theorem client_unreadable_body_counterexample:
  "Do (base (NewClient demo_http))
      (addRequestIDToHeader \<lparr>ReqID = ''r3''\<rparr>
         \<lparr>Method = ''GET'', URL = ''/cut'', ReqBody = [], Header = []\<rparr>)
     = Inr \<lparr>StatusCode = 200, Body = Inl ''unexpected EOF''\<rparr>
   \<and> Get (NewClient demo_http) \<lparr>ReqID = ''r3''\<rparr> ''/cut'' = Inl (Ext ''unexpected EOF'')
   \<and> Do (base (NewClient demo_http))
      (addRequestIDToHeader \<lparr>ReqID = ''r4''\<rparr>
         \<lparr>Method = ''POST'', URL = ''/down'', ReqBody = ''{}'', Header = []\<rparr>)
     = Inr \<lparr>StatusCode = 500, Body = Inl ''unexpected EOF''\<rparr>
   \<and> Post (NewClient demo_http) \<lparr>ReqID = ''r4''\<rparr> ''/down'' ''{}''
     = Inl (Ext ''unexpected EOF'')"
  by (simp add: Get_def Post_def executeRequest_def NewClient_def demo_http_def
      addRequestIDToHeader_def Header_Add_def)

text \<open>
  Claim C10, amended.  Whenever a \<open>Get\<close> or a \<open>Post\<close> receives a response and the body
  of the response can be read, the call returns the body exactly when the status code is
  200; for every other status code, the other 2xx codes included, it returns the error
  whose message carries the status code and the body.  When reading the body fails, the
  call returns the read error, whatever the status code.
\<close>

theorem client_body_iff_status_ok:
  "(\<forall>rq resp.
      NewRequest (base c) ''GET'' url [] = Inr rq \<longrightarrow>
      Do (base c) (addRequestIDToHeader ctx rq) = Inr resp \<longrightarrow>
        (\<forall>body. Body resp = Inr body \<longrightarrow>
            (Get c ctx url = Inr body \<longleftrightarrow> StatusCode resp = 200)
          \<and> (StatusCode resp \<noteq> 200 \<longrightarrow>
                Get c ctx url = Inl (ErrNew (''http request failed with status ''
                   @ show_int (StatusCode resp) @ '', error: '' @ body))))
      \<and> (\<forall>m. Body resp = Inl m \<longrightarrow> Get c ctx url = Inl (Ext m)))
   \<and> (\<forall>rq resp.
      NewRequest (base c) ''POST'' url payload = Inr rq \<longrightarrow>
      Do (base c) (addRequestIDToHeader ctx rq) = Inr resp \<longrightarrow>
        (\<forall>body. Body resp = Inr body \<longrightarrow>
            (Post c ctx url payload = Inr body \<longleftrightarrow> StatusCode resp = 200)
          \<and> (StatusCode resp \<noteq> 200 \<longrightarrow>
                Post c ctx url payload = Inl (ErrNew (''http request failed with status ''
                   @ show_int (StatusCode resp) @ '', error: '' @ body))))
      \<and> (\<forall>m. Body resp = Inl m \<longrightarrow> Post c ctx url payload = Inl (Ext m)))"
proof (intro conjI allI impI)
  fix rq resp body
  assume a: "NewRequest (base c) ''GET'' url [] = Inr rq"
    "Do (base c) (addRequestIDToHeader ctx rq) = Inr resp" "Body resp = Inr body"
  have g: "Get c ctx url = executeRequest c (addRequestIDToHeader ctx rq)"
    using a(1) by (simp add: Get_def)
  show "Get c ctx url = Inr body \<longleftrightarrow> StatusCode resp = 200"
    unfolding g using executeRequest_status [OF a(2) a(3)] by simp
  assume "StatusCode resp \<noteq> 200"
  then show "Get c ctx url = Inl (ErrNew (''http request failed with status ''
               @ show_int (StatusCode resp) @ '', error: '' @ body))"
    unfolding g using executeRequest_status [OF a(2) a(3)] by simp
next
  fix rq resp m
  assume a: "NewRequest (base c) ''GET'' url [] = Inr rq"
    "Do (base c) (addRequestIDToHeader ctx rq) = Inr resp" "Body resp = Inl m"
  have g: "Get c ctx url = executeRequest c (addRequestIDToHeader ctx rq)"
    using a(1) by (simp add: Get_def)
  show "Get c ctx url = Inl (Ext m)"
    unfolding g by (rule executeRequest_unread [OF a(2) a(3)])
next
  fix rq resp body
  assume a: "NewRequest (base c) ''POST'' url payload = Inr rq"
    "Do (base c) (addRequestIDToHeader ctx rq) = Inr resp" "Body resp = Inr body"
  have p: "Post c ctx url payload = executeRequest c (addRequestIDToHeader ctx rq)"
    using a(1) by (simp add: Post_def)
  show "Post c ctx url payload = Inr body \<longleftrightarrow> StatusCode resp = 200"
    unfolding p using executeRequest_status [OF a(2) a(3)] by simp
  assume "StatusCode resp \<noteq> 200"
  then show "Post c ctx url payload = Inl (ErrNew (''http request failed with status ''
               @ show_int (StatusCode resp) @ '', error: '' @ body))"
    unfolding p using executeRequest_status [OF a(2) a(3)] by simp
next
  fix rq resp m
  assume a: "NewRequest (base c) ''POST'' url payload = Inr rq"
    "Do (base c) (addRequestIDToHeader ctx rq) = Inr resp" "Body resp = Inl m"
  have p: "Post c ctx url payload = executeRequest c (addRequestIDToHeader ctx rq)"
    using a(1) by (simp add: Post_def)
  show "Post c ctx url payload = Inl (Ext m)"
    unfolding p by (rule executeRequest_unread [OF a(2) a(3)])
qed

text \<open>The amended C10 at work: the demo server answers 201 to a \<open>Get\<close>, 200 to a
  \<open>Post\<close>, and 200 with an unreadable body to a \<open>Get\<close> of \<open>/cut\<close>.\<close>

theorem client_body_iff_status_ok_witness:
  "Get (NewClient demo_http) \<lparr>ReqID = ''r1''\<rparr> ''/claims'' =
     Inl (ErrNew (''http request failed with status '' @ show_int 201 @ '', error: created''))
   \<and> Get (NewClient demo_http) \<lparr>ReqID = ''r1''\<rparr> ''/claims'' \<noteq> Inr ''created''
   \<and> Post (NewClient demo_http) \<lparr>ReqID = ''r2''\<rparr> ''/ok'' ''{}'' = Inr ''fine''
   \<and> Get (NewClient demo_http) \<lparr>ReqID = ''r3''\<rparr> ''/cut'' = Inl (Ext ''unexpected EOF'')"
proof -
  let ?c = "NewClient demo_http"
  let ?g = "\<lparr>Method = ''GET'', URL = ''/claims'', ReqBody = [], Header = []\<rparr>"
  let ?p = "\<lparr>Method = ''POST'', URL = ''/ok'', ReqBody = ''{}'', Header = []\<rparr>"
  let ?k = "\<lparr>Method = ''GET'', URL = ''/cut'', ReqBody = [], Header = []\<rparr>"
  have g1: "NewRequest (base ?c) ''GET'' ''/claims'' [] = Inr ?g"
    by (simp add: NewClient_def demo_http_def)
  have g2: "Do (base ?c) (addRequestIDToHeader \<lparr>ReqID = ''r1''\<rparr> ?g)
              = Inr \<lparr>StatusCode = 201, Body = Inr ''created''\<rparr>"
    by (simp add: NewClient_def demo_http_def addRequestIDToHeader_def Header_Add_def)
  have p1: "NewRequest (base ?c) ''POST'' ''/ok'' ''{}'' = Inr ?p"
    by (simp add: NewClient_def demo_http_def)
  have p2: "Do (base ?c) (addRequestIDToHeader \<lparr>ReqID = ''r2''\<rparr> ?p)
              = Inr \<lparr>StatusCode = 200, Body = Inr ''fine''\<rparr>"
    by (simp add: NewClient_def demo_http_def addRequestIDToHeader_def Header_Add_def)
  have k1: "NewRequest (base ?c) ''GET'' ''/cut'' [] = Inr ?k"
    by (simp add: NewClient_def demo_http_def)
  have k2: "Do (base ?c) (addRequestIDToHeader \<lparr>ReqID = ''r3''\<rparr> ?k)
              = Inr \<lparr>StatusCode = 200, Body = Inl ''unexpected EOF''\<rparr>"
    by (simp add: NewClient_def demo_http_def addRequestIDToHeader_def Header_Add_def)
  from client_body_iff_status_ok [of ?c "''/claims''" "\<lparr>ReqID = ''r1''\<rparr>"] g1 g2
  have a: "Get ?c \<lparr>ReqID = ''r1''\<rparr> ''/claims'' =
     Inl (ErrNew (''http request failed with status '' @ show_int 201 @ '', error: created''))"
    by simp
  from client_body_iff_status_ok [of ?c "''/ok''" "\<lparr>ReqID = ''r2''\<rparr>" "''{}''"] p1 p2
  have b: "Post ?c \<lparr>ReqID = ''r2''\<rparr> ''/ok'' ''{}'' = Inr ''fine''"
    by simp
  from client_body_iff_status_ok [of ?c "''/cut''" "\<lparr>ReqID = ''r3''\<rparr>"] k1 k2
  have d: "Get ?c \<lparr>ReqID = ''r3''\<rparr> ''/cut'' = Inl (Ext ''unexpected EOF'')"
    by simp
  from a b d show ?thesis by simp
qed

subsection \<open>The publisher\<close>

lemma at_two: "2 \<le> length xs \<Longrightarrow> at xs 0 = Inr (xs ! 0) \<and> at xs 1 = Inr (xs ! 1)"
  by (cases xs) (auto simp: at_def)

lemma getStatePayload_not_New: "getStatePayload L ti \<noteq> Inl (ErrNew m)"
  by (simp add: getStatePayload_def bnd_def at_def Let_def split: sum.splits prod.splits)

lemma sendTransaction_not_New: "fst (sendTransaction L ps tr f t p) \<noteq> Inl (ErrNew m)"
  by (simp add: sendTransaction_def Let_def split: sum.splits option.splits)

lemma UpdateState_changed:
  "NewState ti \<noteq> LatestState ti \<Longrightarrow>
   UpdateState L ps tr ti =
      (case getStatePayload L ti of
         Inl err \<Rightarrow> (Inl err, tr)
       | Inr payload \<Rightarrow>
           (case sendTransaction L ps tr (PubkeyToAddress L (PublicKey (privateKey ps)))
                   (contractAddress ps) payload of
              (Inl err, tr') \<Rightarrow> (Inl err, tr')
            | (Inr tx, tr') \<Rightarrow> (Inr (TxHashHex L tx), tr')))"
  by (simp add: UpdateState_def Hash_Equals_def Public_def)

text \<open>
  Claim C7.  For a transition whose new state differs from the old one and whose proof
  parses to a triple \<open>(a, b, c)\<close> with at least two entries in \<open>a\<close>, in \<open>c\<close>, in \<open>b\<close>
  and in each of the first two rows of \<open>b\<close>, the payload is what \<^verbatim>\<open>Pack\<close> makes of
  the method name \<open>transitState\<close> and the seven arguments identifier, old state, new
  state, genesis flag, \<open>a\<close>, \<open>b\<close> and \<open>c\<close>, where the \<open>b\<close> argument is the matrix
  \<open>[[b[0][1], b[0][0]], [b[1][1], b[1][0]]]\<close>; and \<open>UpdateState\<close> sends exactly this
  payload.
\<close>

theorem getStatePayload_swaps_b:
  assumes "NewState ti \<noteq> LatestState ti"
    and "ProofToBigInts L (Proof ti) = Inr (a, b, c)"
    and "2 \<le> length a" and "2 \<le> length b" and "2 \<le> length (b ! 0)"
    and "2 \<le> length (b ! 1)" and "2 \<le> length c"
    and "GetAbi L = Inr ab"
  shows "getStatePayload L ti =
      (case Pack L ab ''transitState''
              [BigIntArg (uint (TransitionInfo.Identifier ti)),
               BigIntArg (uint (LatestState ti)),
               BigIntArg (uint (NewState ti)),
               BoolArg (IsOldStateGenesis ti),
               ArrayArg [BigIntArg (a ! 0), BigIntArg (a ! 1)],
               ArrayArg [ArrayArg [BigIntArg (b ! 0 ! 1), BigIntArg (b ! 0 ! 0)],
                         ArrayArg [BigIntArg (b ! 1 ! 1), BigIntArg (b ! 1 ! 0)]],
               ArrayArg [BigIntArg (c ! 0), BigIntArg (c ! 1)]] of
         Inl err \<Rightarrow> Inl (WithStack (Ext err))
       | Inr payload \<Rightarrow> Inr payload)
    \<and> UpdateState L ps tr ti =
      (case getStatePayload L ti of
         Inl err \<Rightarrow> (Inl err, tr)
       | Inr payload \<Rightarrow>
           (case sendTransaction L ps tr (PubkeyToAddress L (PublicKey (privateKey ps)))
                   (contractAddress ps) payload of
              (Inl err, tr') \<Rightarrow> (Inl err, tr')
            | (Inr tx, tr') \<Rightarrow> (Inr (TxHashHex L tx), tr')))"
proof
  show "getStatePayload L ti = (case Pack L ab ''transitState''
              [BigIntArg (uint (TransitionInfo.Identifier ti)),
               BigIntArg (uint (LatestState ti)),
               BigIntArg (uint (NewState ti)),
               BoolArg (IsOldStateGenesis ti),
               ArrayArg [BigIntArg (a ! 0), BigIntArg (a ! 1)],
               ArrayArg [ArrayArg [BigIntArg (b ! 0 ! 1), BigIntArg (b ! 0 ! 0)],
                         ArrayArg [BigIntArg (b ! 1 ! 1), BigIntArg (b ! 1 ! 0)]],
               ArrayArg [BigIntArg (c ! 0), BigIntArg (c ! 1)]] of
         Inl err \<Rightarrow> Inl (WithStack (Ext err))
       | Inr payload \<Rightarrow> Inr payload)"
    using assms(2) assms(8) at_two [OF assms(3)] at_two [OF assms(4)] at_two [OF assms(5)]
      at_two [OF assms(6)] at_two [OF assms(7)]
    by (simp add: getStatePayload_def bnd_def ID_BigInt_def Hash_BigInt_def)
  show "UpdateState L ps tr ti =
      (case getStatePayload L ti of
         Inl err \<Rightarrow> (Inl err, tr)
       | Inr payload \<Rightarrow>
           (case sendTransaction L ps tr (PubkeyToAddress L (PublicKey (privateKey ps)))
                   (contractAddress ps) payload of
              (Inl err, tr') \<Rightarrow> (Inl err, tr')
            | (Inr tx, tr') \<Rightarrow> (Inr (TxHashHex L tx), tr')))"
    using assms(1) by (rule UpdateState_changed)
qed

text \<open>The theorem at work: with \<open>b = [[21, 22], [23, 24], [1, 0]]\<close> the payload lists
  22, 21, 24, 23 for \<open>b\<close>.\<close>

theorem getStatePayload_swaps_b_witness:
  "NewState (demo_transition 5 6) \<noteq> LatestState (demo_transition 5 6)
   \<and> ProofToBigInts demo_eth (Proof (demo_transition 5 6))
       = Inr ([11, 12, 1], [[21, 22], [23, 24], [1, 0]], [31, 32, 1])
   \<and> GetAbi demo_eth = Inr ''abi''
   \<and> getStatePayload demo_eth (demo_transition 5 6)
       = Inr ''transitState(9,5,6,1,11,12,22,21,24,23,31,32)''"
  using getStatePayload_swaps_b [of "demo_transition 5 6" demo_eth "[11, 12, 1]"
      "[[21, 22], [23, 24], [1, 0]]" "[31, 32, 1]" "''abi''"]
  by (simp add: demo_transition_def demo_eth_def demo_Pack_def show_int_def
      show_nat.simps digit_def)

text \<open>
  Claim C8.  \<open>UpdateState\<close> fails with the error \<open>state hasn't been changed\<close> exactly
  when the new state equals the latest state, and then the trace of remote calls is the
  one it was given: no nonce was fetched, no gas estimated, nothing signed or sent.
\<close>

theorem UpdateState_unchanged_iff:
  "(fst (UpdateState L ps tr ti) = Inl (ErrNew ''state hasn't been changed'')
      \<longleftrightarrow> NewState ti = LatestState ti)
   \<and> (NewState ti = LatestState ti \<longrightarrow> snd (UpdateState L ps tr ti) = tr)"
proof -
  have eq: "NewState ti = LatestState ti \<Longrightarrow>
      UpdateState L ps tr ti = (Inl (ErrNew ''state hasn't been changed''), tr)"
    by (simp add: UpdateState_def Hash_Equals_def)
  have neq: "fst (UpdateState L ps tr ti) \<noteq> Inl (ErrNew ''state hasn't been changed'')"
    if d: "NewState ti \<noteq> LatestState ti"
  proof (cases "getStatePayload L ti")
    case (Inl e)
    with d getStatePayload_not_New [of L ti] show ?thesis
      by (auto simp: UpdateState_changed)
  next
    case (Inr payload)
    obtain r tr' where st:
      "sendTransaction L ps tr (PubkeyToAddress L (PublicKey (privateKey ps)))
         (contractAddress ps) payload = (r, tr')"
      by (cases "sendTransaction L ps tr (PubkeyToAddress L (PublicKey (privateKey ps)))
         (contractAddress ps) payload") auto
    have "r \<noteq> Inl (ErrNew ''state hasn't been changed'')"
      using sendTransaction_not_New [of L ps tr "PubkeyToAddress L (PublicKey (privateKey ps))"
        "contractAddress ps" payload] st by simp
    with d Inr st show ?thesis
      by (cases r) (simp_all add: UpdateState_changed)
  qed
  from eq neq show ?thesis by auto
qed

theorem UpdateState_unchanged_iff_witness:
  "UpdateState demo_eth demo_publisher [] (demo_transition 5 5)
     = (Inl (ErrNew ''state hasn't been changed''), [])
   \<and> fst (UpdateState demo_eth demo_publisher [] (demo_transition 5 6))
     \<noteq> Inl (ErrNew ''state hasn't been changed'')"
  using UpdateState_unchanged_iff [of demo_eth demo_publisher "[]" "demo_transition 5 5"]
        UpdateState_unchanged_iff [of demo_eth demo_publisher "[]" "demo_transition 5 6"]
  by (simp add: demo_transition_def prod_eq_iff)

lemma WaitTransaction_closed_iff:
  "fst (WaitTransaction L ps tr txHash)
     \<longleftrightarrow> (\<exists>err. TransactionReceipt (client ps) (HexToHash L txHash) = Inl err)"
  by (simp add: WaitTransaction_def Let_def split: sum.splits)

lemma WaitTransaction_one_request:
  "snd (WaitTransaction L ps tr txHash) = tr @ [RpcTransactionReceipt (HexToHash L txHash)]"
  by (simp add: WaitTransaction_def Let_def split: sum.splits)

text \<open>
  Claim C9, evaluated on the code.  For a transaction whose receipt the node returns with
  status 1 (success), \<open>WaitTransaction\<close> asks for the receipt once and ends with the
  channel still open; for a transaction whose receipt cannot be fetched it asks once and
  closes the channel.  So the code completes on error and never on success, and it does
  not poll.
\<close>

theorem WaitTransaction_open_on_success:
  "TransactionReceipt (client demo_publisher) (HexToHash demo_eth ''0xbeef'')
     = Inr \<lparr>Status = 1, TxHash = ''0xbeef''\<rparr>
   \<and> WaitTransaction demo_eth demo_publisher [] ''0xbeef''
     = (False, [RpcTransactionReceipt ''0xbeef''])
   \<and> WaitTransaction demo_eth demo_publisher [] ''0xdead''
     = (True, [RpcTransactionReceipt ''0xdead''])"
  by (simp add: WaitTransaction_def demo_eth_def demo_publisher_def demo_node_def)

subsection \<open>The identity\<close>

lemma AddClaim_split:
  "AddClaim S K cReq i =
     (case AddClaim_prepare S K cReq i of
        Inl err \<Rightarrow> (Inl err, i)
      | Inr (coreClaim, claimModel, ident) \<Rightarrow>
          (case AddClaimToTree S coreClaim (state i) of
             (Some err, s1) \<Rightarrow> (Inl err, i\<lparr>state := s1\<rparr>)
           | (None, s1) \<Rightarrow>
               (case AddClaimToDB S claimModel s1 of
                  (Some err, s2) \<Rightarrow> (Inl err, i\<lparr>state := s2\<rparr>)
                | (None, s2) \<Rightarrow>
                    (case SaveIdentityString S (db s2) (ID_String K ident) of
                       (Some err, d) \<Rightarrow> (Inl (Ext err), i\<lparr>state := s2\<lparr>db := d\<rparr>\<rparr>)
                     | (None, d) \<Rightarrow> (Inr \<lparr>resp_ID = cm_ID claimModel\<rparr>,
                                    i\<lparr>state := s2\<lparr>db := d\<rparr>\<rparr>)))))"
  by (auto simp add: AddClaim_def AddClaim_prepare_def Let_def
      split: sum.splits option.splits prod.splits)

lemma GetStateHash_cong:
  "Claims s = Claims s' \<Longrightarrow> Revocations s = Revocations s' \<Longrightarrow> Roots s = Roots s' \<Longrightarrow>
   GetStateHash S s = GetStateHash S s'"
  by (simp add: GetStateHash_def)

lemma AddClaim_frame:
  "sk (snd (AddClaim S K cReq i)) = sk i"
  "Identifier (snd (AddClaim S K cReq i)) = Identifier i"
  "authClaimId (snd (AddClaim S K cReq i)) = authClaimId i"
  "baseUrl (snd (AddClaim S K cReq i)) = baseUrl i"
  "Revocations (state (snd (AddClaim S K cReq i))) = Revocations (state i)"
  "Roots (state (snd (AddClaim S K cReq i))) = Roots (state i)"
  by (auto simp: AddClaim_split AddClaimToTree_def AddClaimToDB_def
      split: sum.splits prod.splits option.splits)

lemma Revoke_frame:
  "sk (snd (Revoke S n v i)) = sk i"
  "Identifier (snd (Revoke S n v i)) = Identifier i"
  "authClaimId (snd (Revoke S n v i)) = authClaimId i"
  "baseUrl (snd (Revoke S n v i)) = baseUrl i"
  "Claims (state (snd (Revoke S n v i))) = Claims (state i)"
  "Roots (state (snd (Revoke S n v i))) = Roots (state i)"
  by (auto simp: Revoke_def split: prod.splits)

lemma run_Identifier: "Identifier (run S K cs i) = Identifier i"
proof (induction cs arbitrary: i)
  case Nil
  show ?case by simp
next
  case (Cons c cs)
  show ?case
  proof (cases c)
    case (CallAddClaim cReq)
    then show ?thesis by (simp add: Cons.IH AddClaim_frame(2))
  next
    case (CallRevoke n v)
    then show ?thesis by (simp add: Cons.IH Revoke_frame(2))
  qed
qed

lemma run_Roots: "Roots (state (run S K (map CallAddClaim reqs) i)) = Roots (state i)"
  by (induction reqs arbitrary: i) (simp_all add: AddClaim_frame(6))

lemma run_Revocations:
  "Revocations (state (run S K (map CallAddClaim reqs) i)) = Revocations (state i)"
  by (induction reqs arbitrary: i) (simp_all add: AddClaim_frame(5))

lemma setupGenesisState_fst_cong:
  assumes "sk j = sk i" and "Claims (state j) = Claims (state i)"
    and "Root S (Revocations (state j)) = Root S (Revocations (state i))"
    and "Root S (Roots (state j)) = Root S (Roots (state i))"
  shows "fst (setupGenesisState S K j) = fst (setupGenesisState S K i)"
  using assms
  by (auto simp: setupGenesisState_def AddClaimToTree_def GetStateHash_def Let_def
      split: sum.splits prod.splits option.splits)

lemma setupGenesisState_ok:
  assumes "setupGenesisState S K i = (Inr (ident, authClaim), i')"
  shows "\<exists>schemaHash claimId t h.
        NewSchemaHashFromHex K (AuthBJJCredentialHash K) = Inr schemaHash
      \<and> NewAuthClaim K (bjj_Public K (sk i)) schemaHash = Inr authClaim
      \<and> SaveClaimMT S (Claims (state i)) authClaim = (None, t)
      \<and> HIndex K authClaim = Inr claimId
      \<and> authClaimId i' = Some claimId
      \<and> state i' = (state i)\<lparr>Claims := t\<rparr>
      \<and> GetStateHash S (state i') = Inr h
      \<and> IdGenesisFromIdenState K (TypeDefault K) (uint h) = Inr ident
      \<and> sk i' = sk i \<and> Identifier i' = Identifier i \<and> baseUrl i' = baseUrl i"
  using assms
  by (auto simp: setupGenesisState_def AddClaimToTree_def Let_def Hash_BigInt_def
      split: sum.splits prod.splits option.splits)

lemma init_ok:
  assumes "init S K i = (None, i')"
  shows "\<exists>ident authClaim i1.
      setupGenesisState S K i = (Inr (ident, authClaim), i1)
    \<and> Identifier i' = Some ident
    \<and> authClaimId i' = authClaimId i1
    \<and> Claims (state i') = Claims (state i1)
    \<and> Revocations (state i') = Revocations (state i1)
    \<and> Roots (state i') = Roots (state i1)"
  using assms
  by (auto simp: init_def AddClaimToDB_def Let_def split: sum.splits prod.splits option.splits)

lemma New_ok:
  assumes "New S K s secret hostUrl = (Some iden, err, s')"
  shows "\<exists>i'. init S K \<lparr>sk = secret, Identifier = None, authClaimId = None, state = s,
                 baseUrl = hostUrl\<rparr> = (None, i')
    \<and> s' = state iden
    \<and> Identifier iden = Identifier i'
    \<and> authClaimId iden = authClaimId i'
    \<and> Claims (state iden) = Claims (state i')
    \<and> Revocations (state iden) = Revocations (state i')
    \<and> Roots (state iden) = Roots (state i')"
  using assms
  by (auto simp: New_def Let_def split: sum.splits prod.splits option.splits error.splits)

lemma New_genesis:
  assumes "New S K s secret hostUrl = (Some iden, err, s')"
  shows "\<exists>schemaHash authClaim claimId t h ident.
      NewSchemaHashFromHex K (AuthBJJCredentialHash K) = Inr schemaHash
    \<and> NewAuthClaim K (bjj_Public K secret) schemaHash = Inr authClaim
    \<and> SaveClaimMT S (Claims s) authClaim = (None, t)
    \<and> HIndex K authClaim = Inr claimId
    \<and> fst (setupGenesisState S K \<lparr>sk = secret, Identifier = None, authClaimId = None,
          state = s, baseUrl = hostUrl\<rparr>) = Inr (ident, authClaim)
    \<and> s' = state iden
    \<and> Identifier iden = Some ident
    \<and> authClaimId iden = Some claimId
    \<and> Claims (state iden) = t
    \<and> Revocations (state iden) = Revocations s
    \<and> Roots (state iden) = Roots s
    \<and> GetStateHash S (state iden) = Inr h
    \<and> IdGenesisFromIdenState K (TypeDefault K) (uint h) = Inr ident"
proof -
  let ?i0 = "\<lparr>sk = secret, Identifier = None, authClaimId = None, state = s,
               baseUrl = hostUrl\<rparr>"
  from New_ok [OF assms] obtain i' where
    i: "init S K ?i0 = (None, i')" and
    n: "s' = state iden" "Identifier iden = Identifier i'" "authClaimId iden = authClaimId i'"
       "Claims (state iden) = Claims (state i')"
       "Revocations (state iden) = Revocations (state i')" "Roots (state iden) = Roots (state i')"
    by blast
  from init_ok [OF i] obtain ident authClaim i1 where
    g: "setupGenesisState S K ?i0 = (Inr (ident, authClaim), i1)" and
    m: "Identifier i' = Some ident" "authClaimId i' = authClaimId i1"
       "Claims (state i') = Claims (state i1)"
       "Revocations (state i') = Revocations (state i1)" "Roots (state i') = Roots (state i1)"
    by blast
  from setupGenesisState_ok [OF g] obtain schemaHash claimId t h where
    k: "NewSchemaHashFromHex K (AuthBJJCredentialHash K) = Inr schemaHash"
       "NewAuthClaim K (bjj_Public K secret) schemaHash = Inr authClaim"
       "SaveClaimMT S (Claims s) authClaim = (None, t)"
       "HIndex K authClaim = Inr claimId" "authClaimId i1 = Some claimId"
       "state i1 = s\<lparr>Claims := t\<rparr>"
       "GetStateHash S (state i1) = Inr h"
       "IdGenesisFromIdenState K (TypeDefault K) (uint h) = Inr ident"
    by auto
  have "GetStateHash S (state iden) = GetStateHash S (state i1)"
    using n m by (intro GetStateHash_cong) simp_all
  with g n m k show ?thesis by auto
qed

lemma setupGenesisState_frame:
  "Roots (state (snd (setupGenesisState S K i))) = Roots (state i)"
  "Revocations (state (snd (setupGenesisState S K i))) = Revocations (state i)"
  by (auto simp: setupGenesisState_def AddClaimToTree_def Let_def
      split: sum.splits prod.splits option.splits)

lemma init_frame:
  "Roots (state (snd (init S K i))) = Roots (state i)"
  "Revocations (state (snd (init S K i))) = Revocations (state i)"
proof -
  obtain r i1 where g: "setupGenesisState S K i = (r, i1)"
    by (cases "setupGenesisState S K i") auto
  have f: "Roots (state i1) = Roots (state i)" "Revocations (state i1) = Revocations (state i)"
    using setupGenesisState_frame [of S K i] g by simp_all
  show "Roots (state (snd (init S K i))) = Roots (state i)"
    using g f by (auto simp: init_def AddClaimToDB_def Let_def
        split: sum.splits prod.splits option.splits)
  show "Revocations (state (snd (init S K i))) = Revocations (state i)"
    using g f by (auto simp: init_def AddClaimToDB_def Let_def
        split: sum.splits prod.splits option.splits)
qed

lemma New_frame:
  "Roots (snd (snd (New S K s secret hostUrl))) = Roots s"
  "Revocations (snd (snd (New S K s secret hostUrl))) = Revocations s"
proof -
  let ?i0 = "\<lparr>sk = secret, Identifier = None, authClaimId = None, state = s,
               baseUrl = hostUrl\<rparr>"
  obtain e i1 where g: "init S K ?i0 = (e, i1)"
    by (cases "init S K ?i0") auto
  have f: "Roots (state i1) = Roots s" "Revocations (state i1) = Revocations s"
    using init_frame [of S K ?i0] g by simp_all
  show "Roots (snd (snd (New S K s secret hostUrl))) = Roots s"
    using g f by (auto simp: New_def Let_def
        split: sum.splits prod.splits option.splits error.splits)
  show "Revocations (snd (snd (New S K s secret hostUrl))) = Revocations s"
    using g f by (auto simp: New_def Let_def
        split: sum.splits prod.splits option.splits error.splits)
qed

lemma AddClaim_prepare_revocation_status:
  assumes "AddClaim_prepare S K cReq i = Inr (coreClaim, claimModel, ident)"
  shows "\<exists>aid c proof. authClaimId i = Some aid
      \<and> Claims_GetClaim S (db (state i)) (BigInt_Bytes aid) = Inr c
      \<and> SignClaimEntry K c (sign K i) = Inr proof
      \<and> Marshal_sigProof K (proof\<lparr>sig_IssuerData := (sig_IssuerData proof)\<lparr>RevocationStatus :=
            baseUrl i @ ''/api/v1/claims/revocation/status/''
              @ show_nat (unat (cm_RevNonce claimModel))\<rparr>\<rparr>) = Inr (cm_SignatureProof claimModel)"
  using assms
  by (auto simp: AddClaim_prepare_def Let_def split: sum.splits prod.splits option.splits)

subsection \<open>The demo instance, evaluated\<close>

lemma demo_state_lib_simps:
  "HashElems demo_state_lib xs = Inr (word_of_int (demo_hash xs))"
  "Root demo_state_lib t = demo_Root t"
  "Tree_Add demo_state_lib t k v = demo_Add t k v"
  "SaveClaimMT demo_state_lib t c = demo_Add t (demo_HIndex c) (demo_HValue c)"
  "SaveClaimDB demo_state_lib d m =
     (if capacity d \<le> length (claims d) then (Some ''disk full'', d)
      else (None, d\<lparr>claims := claims d @ [(cm_ID m, m)]\<rparr>))"
  "Claims_GetClaim demo_state_lib d b = (case map_of (claims d) b of None \<Rightarrow> Inl ''claim not found''
                                | Some c \<Rightarrow> Inr c)"
  "GenerateProof demo_state_lib t k = Inr (''proof-of-'' @ show_int k)"
  "SaveIdentityString demo_state_lib d a = (None, d\<lparr>saved := Some a\<rparr>)"
  by (simp_all add: demo_state_lib_def)

lemma demo_schema_lib_simps:
  "url_Parse demo_schema_lib u = (if take 7 u = ''ipfs://''
                       then Inr \<lparr>Scheme = ''ipfs'', Host = drop 7 u, url_String = u\<rparr>
                       else Inl ''unsupported url'')"
  "Load demo_schema_lib l = Inr ''schema''"
  "ValidateData demo_schema_lib t d sch = (if d = [] then Some ''no data'' else None)"
  "ParseSlots demo_schema_lib t d sch = Inr \<lparr>IndexA = d, IndexB = [], ValueA = [], ValueB = []\<rparr>"
  "Keccak256 demo_schema_lib bs = take 32 (concat bs @ ''00000000000000000000000000000000'')"
  "hex_EncodeToString demo_schema_lib b = b"
  "JSONLD demo_schema_lib = ''json-ld''"
  by (simp_all add: demo_schema_lib_def)

lemma demo_identity_lib_simps:
  "AuthBJJCredentialHash demo_identity_lib = ''ca938857241db9451ea329256b9c06e5''"
  "AuthBJJCredentialURL demo_identity_lib = ''https://schema/auth.json-ld''"
  "AuthBJJCredential demo_identity_lib = ''AuthBJJCredential''"
  "TypeDefault demo_identity_lib = [CHR 0x00, CHR 0x00]"
  "SparseMerkleTreeProof demo_identity_lib = ''SparseMerkleTreeProof''"
  "Iden3SparseMerkleProofType demo_identity_lib = ''Iden3SparseMerkleProof''"
  "NewSchemaHashFromHex demo_identity_lib h = Inr h"
  "bjj_Public demo_identity_lib k = (int (length k), 7)"
  "SignPoseidon demo_identity_lib k z = ''signature-of-'' @ show_int z"
  "NewAuthClaim demo_identity_lib (x, y) h = Inr \<lparr>cc_SchemaHash = h, cc_IndexData = [x, y],
        cc_ValueData = [], cc_SubjectID = [], cc_Expiration = 0, cc_Version = 0,
        cc_RevNonce = 0, cc_SubjectPosition = []\<rparr>"
  "HIndex demo_identity_lib c = Inr (demo_HIndex c)"
  "IdGenesisFromIdenState demo_identity_lib t st = Inr (word_of_int st)"
  "ID_String demo_identity_lib i = ''id-'' @ show_nat (unat i)"
  "Hash_Hex demo_identity_lib hh = show_nat (unat hh)"
  "GenerateCoreClaim demo_identity_lib d = Inr \<lparr>cc_SchemaHash = EncodedSchema d,
        cc_IndexData = [int (length (IndexA (Slots d))), uint (ccd_Nonce d)],
        cc_ValueData = [], cc_SubjectID = SubjectID d, cc_Expiration = Expiration d,
        cc_Version = Version d, cc_RevNonce = ccd_Nonce d,
        cc_SubjectPosition = SubjectPosition d\<rparr>"
  "CoreClaimToClaimModel demo_identity_lib c u ty = Inr \<lparr>cm_ID = show_int (demo_HIndex c),
        cm_Identifier = [], cm_Issuer = [], cm_SchemaURL = u, cm_SchemaType = ty,
        cm_RevNonce = cc_RevNonce c, cm_CredentialStatus = [], cm_Data = [],
        cm_MTPProof = [], cm_SignatureProof = []\<rparr>"
  "CreateCredentialStatus demo_identity_lib b ty n = Inr (ty @ ''-'' @ show_nat (unat n))"
  "SignClaimEntry demo_identity_lib m f = (case f (uint (cm_RevNonce m)) of Inl e \<Rightarrow> Inl e
        | Inr sg \<Rightarrow> Inr \<lparr>sig_Type = ''BJJSignature2021'',
            sig_IssuerData = \<lparr>iss_ID = None,
              iss_State = \<lparr>st_Value = None, st_ClaimsTreeRoot = None\<rparr>,
              iss_AuthClaim = cm_ID m, iss_MTP = cm_MTPProof m, RevocationStatus = []\<rparr>,
            sig_Signature = sg\<rparr>)"
  "Marshal_claimData demo_identity_lib kv = Inr (concat (map (\<lambda>(k, v). k @ ''='' @ v @ '';'') kv))"
  "Marshal_mtProof demo_identity_lib p = Inr (mtp_Type p @ '':'' @ mtp_MTP p)"
  "Marshal_sigProof demo_identity_lib q = Inr (sig_Type q @ '';revocationStatus=''
        @ RevocationStatus (sig_IssuerData q) @ '';signature='' @ sig_Signature q)"
  "schema demo_identity_lib = demo_schema_lib"
  by (simp_all add: demo_identity_lib_def)

lemmas demo_simps = demo_state_lib_simps demo_schema_lib_simps demo_identity_lib_simps
  demo_store_def demo_hash_def demo_Root_def demo_Add_def demo_HIndex_def demo_HValue_def
  ext_def Hash_BigInt_def show_nat.simps show_int_def digit_def

lemma demo_setup:
  "setupGenesisState demo_state_lib demo_identity_lib
     \<lparr>sk = ''secret'', Identifier = None, authClaimId = None,
      state = \<lparr>Claims = [], Revocations = [], Roots = [],
                db = \<lparr>claims = [], saved = None, capacity = cap\<rparr>\<rparr>,
      baseUrl = ''http://issuer''\<rparr>
   = (Inr (7009003001001,
       \<lparr>cc_SchemaHash = ''ca938857241db9451ea329256b9c06e5'', cc_IndexData = [6, 7],
        cc_ValueData = [], cc_SubjectID = [], cc_Expiration = 0, cc_Version = 0,
        cc_RevNonce = 0, cc_SubjectPosition = []\<rparr>),
      \<lparr>sk = ''secret'', Identifier = None, authClaimId = Some 7008,
       state = \<lparr>Claims = [(7008, 1)], Revocations = [], Roots = [],
                db = \<lparr>claims = [], saved = None, capacity = cap\<rparr>\<rparr>,
       baseUrl = ''http://issuer''\<rparr>)"
  by (simp add: setupGenesisState_def AddClaimToTree_def GetStateHash_def demo_simps)

lemma demo_init:
  "0 < cap \<Longrightarrow> init demo_state_lib demo_identity_lib
     \<lparr>sk = ''secret'', Identifier = None, authClaimId = None,
      state = \<lparr>Claims = [], Revocations = [], Roots = [],
                db = \<lparr>claims = [], saved = None, capacity = cap\<rparr>\<rparr>,
      baseUrl = ''http://issuer''\<rparr>
   = (None, (demo_identity cap)\<lparr>state := (state (demo_identity cap))\<lparr>db :=
        \<lparr>claims = [(BigInt_Bytes 7008, demo_auth_record)], saved = None, capacity = cap\<rparr>\<rparr>\<rparr>)"
  by (simp add: init_def demo_setup generateProof_def AddClaimToDB_def GetStateHash_def
      demo_simps demo_identity_def demo_auth_record_def)

lemma demo_New:
  "0 < cap \<Longrightarrow> New demo_state_lib demo_identity_lib (demo_store cap) ''secret'' ''http://issuer''
     = (Some (demo_identity cap), None, state (demo_identity cap))"
  by (simp add: New_def demo_store_def demo_init demo_identity_def demo_state_lib_simps
      demo_identity_lib_simps show_nat.simps digit_def Let_def)

lemma demo_Process:
  "Process demo_schema_lib ''ipfs://Qm/kyc-age.json-ld'' ''KYCAgeCredential'' ''birthday''
     = Inr (\<lparr>IndexA = ''birthday'', IndexB = [], ValueA = [], ValueB = []\<rparr>, ''ential0000000000'')"
  by (simp add: Process_def load_def getParsedSlots_def getLoader_def createSchemaHash_def
      demo_schema_lib_simps ext_def)

lemma demo_sign: "sign demo_identity_lib i 0 = Inr ''signature-of-0''"
  by (simp add: sign_def CheckBigIntInField_def Q_def demo_identity_lib_simps show_int_def
      show_nat.simps digit_def)

lemma demo_AddClaim_full:
  "AddClaim demo_state_lib demo_identity_lib demo_request (demo_identity 1)
     = (Inl (Ext ''disk full''),
        (demo_identity 1)\<lparr>state := (state (demo_identity 1))\<lparr>Claims := [(7008, 1), (9008, 8)]\<rparr>\<rparr>)"
  by (simp add: AddClaim_def demo_request_def demo_Process demo_sign demo_identity_def
      demo_auth_record_def AddClaimToTree_def AddClaimToDB_def demo_simps Let_def)

lemma demo_AddClaim_ok:
  "AddClaim demo_state_lib demo_identity_lib demo_request (demo_identity 5)
     = (Inr \<lparr>resp_ID = ''9008''\<rparr>,
        (demo_identity 5)\<lparr>state := (state (demo_identity 5))\<lparr>Claims := [(7008, 1), (9008, 8)],
           db := \<lparr>claims = [(BigInt_Bytes 7008, demo_auth_record), (''9008'', demo_issued_record)],
              saved = Some ''id-7009003001001'', capacity = 5\<rparr>\<rparr>\<rparr>)"
  by (simp add: AddClaim_def demo_request_def demo_Process demo_sign demo_identity_def
      demo_auth_record_def demo_issued_record_def AddClaimToTree_def AddClaimToDB_def demo_simps Let_def)

lemma demo_AddClaim_nodata:
  "AddClaim demo_state_lib demo_identity_lib (demo_request\<lparr>req_Data := []\<rparr>) (demo_identity 5)
     = (Inl (Ext ''no data''), demo_identity 5)"
  by (simp add: AddClaim_split AddClaim_prepare_def Process_def load_def getParsedSlots_def
      getLoader_def demo_request_def demo_schema_lib_simps demo_identity_lib_simps)

lemma demo_prepare:
  "AddClaim_prepare demo_state_lib demo_identity_lib demo_request (demo_identity cap)
     = Inr (\<lparr>cc_SchemaHash = ''ential0000000000'', cc_IndexData = [8, 7], cc_ValueData = [],
             cc_SubjectID = ''11subject'', cc_Expiration = 0, cc_Version = 0, cc_RevNonce = 7,
             cc_SubjectPosition = ''index''\<rparr>, demo_issued_record, 7009003001001)"
  by (simp add: AddClaim_prepare_def demo_request_def demo_Process demo_sign demo_identity_def
      demo_auth_record_def demo_issued_record_def demo_simps Let_def)

text \<open>
  Claim C1, as stated, fails.  On the demo store with room for one claim record, the
  record of the auth claim fills the database; the next \<open>AddClaim\<close> inserts the claim
  into the Claims tree, fails to persist the record (\<open>disk full\<close>) and returns the
  error with the tree still updated: the Claims root and the state hash after the failed
  call differ from those before it.
\<close>

theorem AddClaim_no_rollback_counterexample:
  "fst (AddClaim demo_state_lib demo_identity_lib demo_request (demo_identity 1))
     = Inl (Ext ''disk full'')
   \<and> Root demo_state_lib (Claims (state (snd
        (AddClaim demo_state_lib demo_identity_lib demo_request (demo_identity 1)))))
     \<noteq> Root demo_state_lib (Claims (state (demo_identity 1)))
   \<and> GetStateHash demo_state_lib (state (snd
        (AddClaim demo_state_lib demo_identity_lib demo_request (demo_identity 1))))
     \<noteq> GetStateHash demo_state_lib (state (demo_identity 1))"
  unfolding demo_AddClaim_full
  by (simp add: demo_identity_def GetStateHash_def demo_simps)

text \<open>
  Claim C1, amended.  A call of \<open>AddClaim\<close> that fails in the preparation, before the
  Claims tree is written, leaves the identity as it was.  Nothing is rolled back: once
  the preparation has succeeded, the identity returned by a failed call holds as its
  Claims tree the tree that \<open>SaveClaimMT\<close> left, the Revocations and Roots trees are
  those from before, and the state hash is the hash over the root of that Claims tree.
\<close>

theorem AddClaim_failure_state:
  assumes "AddClaim S K cReq i = (Inl err, i')"
  shows "case AddClaim_prepare S K cReq i of
           Inl e \<Rightarrow> i' = i
         | Inr (coreClaim, claimModel, ident) \<Rightarrow>
             Claims (state i') = snd (SaveClaimMT S (Claims (state i)) coreClaim)
           \<and> Revocations (state i') = Revocations (state i)
           \<and> Roots (state i') = Roots (state i)
           \<and> GetStateHash S (state i') = GetStateHash S
                ((state i)\<lparr>Claims := snd (SaveClaimMT S (Claims (state i)) coreClaim)\<rparr>)"
  using assms
  by (auto simp: AddClaim_split AddClaimToTree_def AddClaimToDB_def GetStateHash_def
      split: sum.splits prod.splits option.splits)

text \<open>The amended C1 at work: the failed call on the full demo database keeps the inserted
  leaf, and a call rejected by the schema validator changes nothing.\<close>

theorem AddClaim_failure_state_witness:
  "fst (AddClaim demo_state_lib demo_identity_lib demo_request (demo_identity 1))
     = Inl (Ext ''disk full'')
   \<and> Claims (state (snd (AddClaim demo_state_lib demo_identity_lib demo_request
        (demo_identity 1)))) = [(7008, 1), (9008, 8)]
   \<and> Roots (state (snd (AddClaim demo_state_lib demo_identity_lib demo_request
        (demo_identity 1)))) = []
   \<and> AddClaim demo_state_lib demo_identity_lib (demo_request\<lparr>req_Data := []\<rparr>)
        (demo_identity 5) = (Inl (Ext ''no data''), demo_identity 5)"
proof -
  let ?i' = "(demo_identity 1)\<lparr>state :=
      (state (demo_identity 1))\<lparr>Claims := [(7008, 1), (9008, 8)]\<rparr>\<rparr>"
  have t: "SaveClaimMT demo_state_lib (Claims (state (demo_identity 1)))
      \<lparr>cc_SchemaHash = ''ential0000000000'', cc_IndexData = [8, 7], cc_ValueData = [],
       cc_SubjectID = ''11subject'', cc_Expiration = 0, cc_Version = 0, cc_RevNonce = 7,
       cc_SubjectPosition = ''index''\<rparr> = (None, [(7008, 1), (9008, 8)])"
    by (simp add: demo_identity_def demo_simps)
  from AddClaim_failure_state [OF demo_AddClaim_full]
  have "Claims (state ?i') = [(7008, 1), (9008, 8)] \<and> Roots (state ?i') = Roots (state (demo_identity 1))"
    by (simp add: demo_prepare t)
  then show ?thesis
    unfolding demo_AddClaim_full demo_AddClaim_nodata
    by (simp add: demo_identity_def)
qed

text \<open>
  Claim C2, as stated, fails.  A successful \<open>AddClaim\<close> on the demo identity returns the
  claim id and leaves the Roots tree empty, with root 0: no Claims-tree root was
  appended, and the genesis root is not in it either.
\<close>

theorem AddClaim_Roots_counterexample:
  "fst (AddClaim demo_state_lib demo_identity_lib demo_request (demo_identity 5))
     = Inr \<lparr>resp_ID = ''9008''\<rparr>
   \<and> Roots (state (demo_identity 5)) = []
   \<and> Roots (state (snd (AddClaim demo_state_lib demo_identity_lib demo_request (demo_identity 5))))
     = []
   \<and> Root demo_state_lib (Roots (state (snd
        (AddClaim demo_state_lib demo_identity_lib demo_request (demo_identity 5))))) = 0"
  unfolding demo_AddClaim_ok
  by (simp add: demo_identity_def demo_state_lib_simps demo_Root_def)

text \<open>
  Claim C2, amended.  \<open>AddClaim\<close> writes the Claims tree and the database only: after
  a call, successful or not, the Roots tree and the Revocations tree are those from
  before the call, and after any sequence of insertions the Roots tree is still the one
  the sequence started with.  Creating the identity does not write the Roots tree
  either: after \<open>New\<close> it is the tree of the store that \<open>New\<close> was given.
\<close>

theorem AddClaim_leaves_Roots:
  "Roots (state (snd (AddClaim S K cReq i))) = Roots (state i)
   \<and> Revocations (state (snd (AddClaim S K cReq i))) = Revocations (state i)
   \<and> Roots (state (run S K (map CallAddClaim reqs) i)) = Roots (state i)
   \<and> Revocations (state (run S K (map CallAddClaim reqs) i)) = Revocations (state i)
   \<and> Roots (snd (snd (New S K s secret hostUrl))) = Roots s"
  by (simp add: AddClaim_frame run_Roots run_Revocations New_frame)

text \<open>
  Claim C3.  Let \<open>New\<close> succeed on a store whose Revocations and Roots trees are empty
  (root 0).  Then the auth claim is the one that \<open>NewAuthClaim\<close> builds from the public
  key of the secret key and the auth schema hash, the Claims tree of the new identity is
  the tree \<open>t\<close> that \<open>SaveClaimMT\<close> made of the store's Claims tree and that claim, the
  Revocations and Roots trees are the store's, the state hash is the hash of the root of
  \<open>t\<close> and two zeros, and the identifier is the genesis identifier of the default type
  for that hash.  A second run with the same secret key on a store with the same Claims
  tree and empty Revocations and Roots trees yields the same identifier.
\<close>

theorem genesis_identifier:
  assumes "Root S (Revocations s) = 0" and "Root S (Roots s) = 0"
    and "New S K s secret hostUrl = (Some iden, err, s')"
  shows "(\<exists>schemaHash authClaim claimId t h ident.
        NewSchemaHashFromHex K (AuthBJJCredentialHash K) = Inr schemaHash
      \<and> NewAuthClaim K (bjj_Public K secret) schemaHash = Inr authClaim
      \<and> SaveClaimMT S (Claims s) authClaim = (None, t)
      \<and> HIndex K authClaim = Inr claimId
      \<and> authClaimId iden = Some claimId
      \<and> s' = state iden
      \<and> Claims (state iden) = t
      \<and> Revocations (state iden) = Revocations s
      \<and> Roots (state iden) = Roots s
      \<and> HashElems S [uint (Root S t), 0, 0] = Inr h
      \<and> GetStateHash S (state iden) = Inr h
      \<and> IdGenesisFromIdenState K (TypeDefault K) (uint h) = Inr ident
      \<and> Identifier iden = Some ident)
    \<and> (\<forall>s2 hostUrl2 iden2 err2 s2'.
          Claims s2 = Claims s \<and> Root S (Revocations s2) = 0 \<and> Root S (Roots s2) = 0
          \<and> New S K s2 secret hostUrl2 = (Some iden2, err2, s2')
          \<longrightarrow> Identifier iden2 = Identifier iden)"
proof (intro conjI allI impI)
  from New_genesis [OF assms(3)] obtain schemaHash authClaim claimId t h ident where
    k: "NewSchemaHashFromHex K (AuthBJJCredentialHash K) = Inr schemaHash"
       "NewAuthClaim K (bjj_Public K secret) schemaHash = Inr authClaim"
       "SaveClaimMT S (Claims s) authClaim = (None, t)"
       "HIndex K authClaim = Inr claimId"
       "authClaimId iden = Some claimId"
       "s' = state iden"
       "Claims (state iden) = t"
       "Revocations (state iden) = Revocations s" "Roots (state iden) = Roots s"
       "GetStateHash S (state iden) = Inr h"
       "IdGenesisFromIdenState K (TypeDefault K) (uint h) = Inr ident"
       "Identifier iden = Some ident"
    by blast
  have "HashElems S [uint (Root S t), 0, 0] = Inr h"
    using k(7,8,9,10) assms(1,2)
    by (simp add: GetStateHash_def Hash_BigInt_def ext_def split: sum.splits)
  with k show "\<exists>schemaHash authClaim claimId t h ident.
        NewSchemaHashFromHex K (AuthBJJCredentialHash K) = Inr schemaHash
      \<and> NewAuthClaim K (bjj_Public K secret) schemaHash = Inr authClaim
      \<and> SaveClaimMT S (Claims s) authClaim = (None, t)
      \<and> HIndex K authClaim = Inr claimId
      \<and> authClaimId iden = Some claimId
      \<and> s' = state iden
      \<and> Claims (state iden) = t
      \<and> Revocations (state iden) = Revocations s
      \<and> Roots (state iden) = Roots s
      \<and> HashElems S [uint (Root S t), 0, 0] = Inr h
      \<and> GetStateHash S (state iden) = Inr h
      \<and> IdGenesisFromIdenState K (TypeDefault K) (uint h) = Inr ident
      \<and> Identifier iden = Some ident"
    by blast
next
  fix s2 hostUrl2 iden2 err2 s2'
  assume a: "Claims s2 = Claims s \<and> Root S (Revocations s2) = 0 \<and> Root S (Roots s2) = 0
          \<and> New S K s2 secret hostUrl2 = (Some iden2, err2, s2')"
  let ?i = "\<lparr>sk = secret, Identifier = None, authClaimId = None, state = s,
               baseUrl = hostUrl\<rparr>"
  let ?j = "\<lparr>sk = secret, Identifier = None, authClaimId = None, state = s2,
               baseUrl = hostUrl2\<rparr>"
  from New_genesis [OF assms(3)] obtain ident authClaim where
    k: "fst (setupGenesisState S K ?i) = Inr (ident, authClaim)"
       "Identifier iden = Some ident"
    by blast
  from a New_genesis [of S K s2 secret hostUrl2 iden2 err2 s2'] obtain identifier2 authClaim2 where
    k2: "fst (setupGenesisState S K ?j) = Inr (identifier2, authClaim2)"
       "Identifier iden2 = Some identifier2"
    by blast
  have "fst (setupGenesisState S K ?j) = fst (setupGenesisState S K ?i)"
    using a assms(1,2) by (intro setupGenesisState_fst_cong) simp_all
  with k k2 show "Identifier iden2 = Identifier iden" by simp
qed

text \<open>Claim C3 at work on the demo store: the key \<open>secret\<close> has the public point
  (6, 7), the auth claim has index hash 7008, the Claims tree after it has root 7009002,
  and state hash and identifier are 7009003001001.  With the key \<open>secrets\<close>, whose public
  point is (7, 7), the identifier is another one.\<close>

theorem genesis_identifier_witness:
  "Root demo_state_lib (Revocations (demo_store 1)) = 0
   \<and> Root demo_state_lib (Roots (demo_store 1)) = 0
   \<and> New demo_state_lib demo_identity_lib (demo_store 1) ''secret'' ''http://issuer''
       = (Some (demo_identity 1), None, state (demo_identity 1))
   \<and> bjj_Public demo_identity_lib ''secret'' = (6, 7)
   \<and> SaveClaimMT demo_state_lib (Claims (demo_store 1))
        \<lparr>cc_SchemaHash = ''ca938857241db9451ea329256b9c06e5'', cc_IndexData = [6, 7],
         cc_ValueData = [], cc_SubjectID = [], cc_Expiration = 0, cc_Version = 0,
         cc_RevNonce = 0, cc_SubjectPosition = []\<rparr> = (None, [(7008, 1)])
   \<and> Claims (state (demo_identity 1)) = [(7008, 1)]
   \<and> Root demo_state_lib [(7008, 1)] = 7009002
   \<and> HashElems demo_state_lib [7009002, 0, 0] = Inr 7009003001001
   \<and> IdGenesisFromIdenState demo_identity_lib (TypeDefault demo_identity_lib) 7009003001001
       = Inr 7009003001001
   \<and> Identifier (demo_identity 1) = Some 7009003001001
   \<and> fst (setupGenesisState demo_state_lib demo_identity_lib
        \<lparr>sk = ''secrets'', Identifier = None, authClaimId = None, state = demo_store 1,
         baseUrl = ''http://issuer''\<rparr>)
       = Inr (8009003001001,
           \<lparr>cc_SchemaHash = ''ca938857241db9451ea329256b9c06e5'', cc_IndexData = [7, 7],
            cc_ValueData = [], cc_SubjectID = [], cc_Expiration = 0, cc_Version = 0,
            cc_RevNonce = 0, cc_SubjectPosition = []\<rparr>)"
proof -
  have r: "Root demo_state_lib (Revocations (demo_store 1)) = 0"
          "Root demo_state_lib (Roots (demo_store 1)) = 0"
    by (simp_all add: demo_state_lib_simps demo_store_def demo_Root_def)
  have n: "New demo_state_lib demo_identity_lib (demo_store 1) ''secret'' ''http://issuer''
       = (Some (demo_identity 1), None, state (demo_identity 1))"
    by (rule demo_New) simp
  have o: "fst (setupGenesisState demo_state_lib demo_identity_lib
        \<lparr>sk = ''secrets'', Identifier = None, authClaimId = None, state = demo_store 1,
         baseUrl = ''http://issuer''\<rparr>)
       = Inr (8009003001001,
           \<lparr>cc_SchemaHash = ''ca938857241db9451ea329256b9c06e5'', cc_IndexData = [7, 7],
            cc_ValueData = [], cc_SubjectID = [], cc_Expiration = 0, cc_Version = 0,
            cc_RevNonce = 0, cc_SubjectPosition = []\<rparr>)"
    by (simp add: setupGenesisState_def AddClaimToTree_def GetStateHash_def demo_simps)
  from genesis_identifier [OF r n] r n o show ?thesis
    by (simp add: demo_identity_def demo_store_def demo_state_lib_simps demo_identity_lib_simps
        demo_Root_def demo_Add_def demo_HIndex_def demo_HValue_def demo_hash_def)
qed

text \<open>
  Claim C4.  For every identity state, \<open>GetStateHash\<close> is the hash of the roots of the
  Claims, Revocations and Roots trees in this order; so it is after every mutation.
  After a successful \<open>AddClaim\<close> these are the root of the Claims tree with the new
  claim inserted and the roots of the other two trees, which the call does not touch.
\<close>

theorem state_hash_is_hash_of_roots:
  "GetStateHash S is = ext (HashElems S [uint (Root S (Claims is)),
       uint (Root S (Revocations is)), uint (Root S (Roots is))])
   \<and> (\<forall>resp i'. AddClaim S K cReq i = (Inr resp, i') \<longrightarrow>
        (\<exists>coreClaim t. SaveClaimMT S (Claims (state i)) coreClaim = (None, t)
          \<and> GetStateHash S (state i') = ext (HashElems S [uint (Root S t),
               uint (Root S (Revocations (state i))), uint (Root S (Roots (state i)))])))"
  by (auto simp: GetStateHash_def Hash_BigInt_def AddClaim_split AddClaimToTree_def
      AddClaimToDB_def split: sum.splits prod.splits option.splits)

text \<open>Claim C4 at work: the state hash after the successful demo insertion.\<close>

theorem state_hash_is_hash_of_roots_witness:
  "AddClaim demo_state_lib demo_identity_lib demo_request (demo_identity 5)
     = (Inr \<lparr>resp_ID = ''9008''\<rparr>,
        (demo_identity 5)\<lparr>state := (state (demo_identity 5))\<lparr>Claims := [(7008, 1), (9008, 8)],
           db := \<lparr>claims = [(BigInt_Bytes 7008, demo_auth_record), (''9008'', demo_issued_record)],
              saved = Some ''id-7009003001001'', capacity = 5\<rparr>\<rparr>\<rparr>)
   \<and> GetStateHash demo_state_lib (state (snd
        (AddClaim demo_state_lib demo_identity_lib demo_request (demo_identity 5))))
     = Inr 7009011009010001001"
  using state_hash_is_hash_of_roots [of demo_state_lib
      "state (snd (AddClaim demo_state_lib demo_identity_lib demo_request (demo_identity 5)))"
      demo_identity_lib demo_request "demo_identity 5"]
  unfolding demo_AddClaim_ok
  by (simp add: demo_identity_def GetStateHash_def demo_simps)

text \<open>
  Claim C5.  Whatever sequence of \<open>AddClaim\<close> and \<open>Revoke\<close> calls runs on an identity,
  failed calls included, the identifier afterwards is the identifier from before.
\<close>

theorem identifier_immutable:
  "Identifier (run S K cs i) = Identifier i"
  by (rule run_Identifier)

text \<open>
  Claim C6, evaluated on the code.  The demo identity's auth claim has revocation nonce
  0 and the request asks for revocation nonce 7.  The signature proof stored with the
  issued credential carries the revocation-status URL ending in 7, the nonce of the new
  claim; the claim requires the nonce of the auth claim, 0.  Lemma
  \<open>AddClaim_prepare_revocation_status\<close> above shows the same for every request: the URL
  is built from \<open>cm_RevNonce\<close> of the new claim's record.
\<close>

theorem AddClaim_revocation_status_nonce:
  "cm_RevNonce demo_auth_record = 0
   \<and> req_RevNonce demo_request = 7
   \<and> map (cm_SignatureProof \<circ> snd) (claims (db (state (snd
        (AddClaim demo_state_lib demo_identity_lib demo_request (demo_identity 5))))))
     = [[], ''BJJSignature2021;revocationStatus=http://issuer/api/v1/claims/revocation/status/7;signature=signature-of-0'']"
  unfolding demo_AddClaim_ok
  by (simp add: demo_identity_def demo_auth_record_def demo_issued_record_def demo_request_def)

end
